theory Spec2Isabelle
  imports Main
begin

section \<open>Values of the program\<close>

text \<open>
  The values that \<^verbatim>\<open>json.loads\<close> and \<^verbatim>\<open>response.json()\<close> hand to the program: JSON
  objects become Python dicts (an association list, looked up with \<open>map_of\<close>), arrays
  become lists. JSON floating-point numbers are not represented.
\<close>

datatype pyval =
    PNone
  | PBool bool
  | PInt int
  | PStr string
  | PList "pyval list"
  | PDict "(string \<times> pyval) list"

text \<open>Python's truth value of an object, as \<^verbatim>\<open>not x\<close> and \<^verbatim>\<open>a and x\<close> test it.\<close>

fun truthy :: "pyval \<Rightarrow> bool" where
  "truthy PNone = False"
| "truthy (PBool b) = b"
| "truthy (PInt i) = (i \<noteq> 0)"
| "truthy (PStr s) = (s \<noteq> [])"
| "truthy (PList xs) = (xs \<noteq> [])"
| "truthy (PDict kvs) = (kvs \<noteq> [])"

text \<open>
  The exceptions that can be raised inside a \<^verbatim>\<open>try\<close> of the program, each with the
  text that \<^verbatim>\<open>str(e)\<close> gives; \<open>OtherError\<close> stands for whatever an external library
  raises (transport failure, timeout, malformed JSON).
\<close>

datatype exn = AttributeError string | OtherError string

fun str_exn :: "exn \<Rightarrow> string" where
  "str_exn (AttributeError m) = m"
| "str_exn (OtherError m) = m"

text \<open>
  How a thread can die: by the \<open>KeyError\<close> of a subscript outside every \<^verbatim>\<open>try\<close>
  (it carries the missing key; no handler ever renders it), or by an exception that
  left the graph.
\<close>

datatype crash = KeyError string | Uncaught exn

fun type_name :: "pyval \<Rightarrow> string" where
  "type_name PNone = ''NoneType''"
| "type_name (PBool b) = ''bool''"
| "type_name (PInt i) = ''int''"
| "type_name (PStr s) = ''str''"
| "type_name (PList xs) = ''list''"
| "type_name (PDict kvs) = ''dict''"

text \<open>
  \<^verbatim>\<open>v.get(k)\<close>: on a dict the value or \<^verbatim>\<open>None\<close>; on anything else Python raises
  AttributeError. \<^verbatim>\<open>v.get(k, d)\<close> likewise with the default \<open>d\<close>.
\<close>

definition no_get :: "pyval \<Rightarrow> exn" where
  "no_get v = AttributeError ([CHR 0x27] @ type_name v @ [CHR 0x27] @ '' object has no attribute '' @ [CHR 0x27] @ ''get'' @ [CHR 0x27])"

fun py_get_default :: "pyval \<Rightarrow> string \<Rightarrow> pyval \<Rightarrow> exn + pyval" where
  "py_get_default (PDict kvs) k d = Inr (case map_of kvs k of None \<Rightarrow> d | Some v \<Rightarrow> v)"
| "py_get_default v k d = Inl (no_get v)"

definition py_get :: "pyval \<Rightarrow> string \<Rightarrow> exn + pyval" where
  "py_get v k = py_get_default v k PNone"

text \<open>Decimal rendering of an integer, as an f-string renders \<^verbatim>\<open>response.status_code\<close>.\<close>

definition digit_char :: "nat \<Rightarrow> char" where
  "digit_char d = char_of (48 + d)"

function str_nat :: "nat \<Rightarrow> string" where
  "str_nat n = (if n < 10 then [digit_char n] else str_nat (n div 10) @ [digit_char (n mod 10)])"
  by pat_completeness auto

termination
  by (relation "measure (\<lambda>n. n)") auto

declare str_nat.simps [simp del]

definition str_int :: "int \<Rightarrow> string" where
  "str_int i = (if i < 0 then CHR ''-'' # str_nat (nat (- i)) else str_nat (nat i))"

section \<open>External collaborators\<close>

text \<open>
  What the HTTP request of \<^verbatim>\<open>call_mcp_tool\<close> can do: \<^verbatim>\<open>requests.post\<close> raises
  (connection refused, timeout after 15 seconds), or a response comes back with a status
  code and a body on which \<^verbatim>\<open>response.json()\<close> either raises or yields a value.
\<close>

datatype http_outcome =
    HttpRaise exn
  | HttpResponse int "exn + pyval"

text \<open>
  The behaviour of everything outside the program is a parameter:
  \<^item> \<open>groq\<close>: \<^verbatim>\<open>groq_client.chat.completions.create(...)\<close> followed by
    \<^verbatim>\<open>response.choices[0].message.content\<close>, from the system and the user message to
    the reply text or the exception raised;
  \<^item> \<open>loads\<close>: \<^verbatim>\<open>json.loads\<close>;
  \<^item> \<open>http_post\<close>: the POST to \<^verbatim>\<open>/tools/call\<close> of the tool server, from the tool name
    and the arguments;
  \<^item> \<open>dumps\<close>: \<^verbatim>\<open>json.dumps(v, indent=2)\<close>;
  \<^item> \<open>str_other\<close>: Python's \<^verbatim>\<open>str()\<close> of a value that is not a string.
\<close>

record ext =
  groq :: "string \<Rightarrow> string \<Rightarrow> exn + string"
  loads :: "string \<Rightarrow> exn + pyval"
  http_post :: "string \<Rightarrow> pyval \<Rightarrow> http_outcome"
  dumps :: "pyval \<Rightarrow> string"
  str_other :: "pyval \<Rightarrow> string"

text \<open>How an f-string renders a value: a string as itself.\<close>

definition py_str :: "ext \<Rightarrow> pyval \<Rightarrow> string" where
  "py_str x v = (case v of PStr s \<Rightarrow> s | _ \<Rightarrow> str_other x v)"

section \<open>Events, queues and the registry\<close>

text \<open>
  The dicts put into a queue, by their \<^verbatim>\<open>"type"\<close>: \<^verbatim>\<open>status\<close> with its message,
  \<^verbatim>\<open>routing\<close> with tool and reasoning (whatever values the routing reply held),
  \<^verbatim>\<open>final\<close> with the response.
\<close>

datatype event =
    Status string
  | Routing pyval pyval
  | Final string

fun is_final :: "event \<Rightarrow> bool" where
  "is_final (Final r) = True"
| "is_final e = False"

text \<open>What the stream endpoint yields: an event taken from the queue, or a keepalive.\<close>

datatype frame = Data event | Keepalive

text \<open>The calls made to the outside, in order.\<close>

datatype call = GroqCall string string | ToolCall string pyval

text \<open>
  The process state. \<^verbatim>\<open>message_queues\<close> is the module-level dict from session id to
  a \<^verbatim>\<open>queue.Queue\<close> object; the objects live in \<open>heap\<close> (address to the items queued
  and not yet taken), and \<open>fresh\<close> is the next unused address: two keys, or a key and
  a local variable of a running generator, can hold the same object. \<open>threads\<close> are the
  \<^verbatim>\<open>process_message\<close> closures started so far, each with its \<^verbatim>\<open>user_message\<close> and
  \<^verbatim>\<open>session_id\<close>; \<open>calls\<close> logs the external calls.
\<close>

record world =
  message_queues :: "string \<rightharpoonup> nat"
  heap :: "nat \<Rightarrow> event list"
  fresh :: nat
  threads :: "(string \<times> string) list"
  calls :: "call list"

text \<open>\<^verbatim>\<open>message_queues[sid] = queue.Queue()\<close>\<close>

definition new_queue :: "string \<Rightarrow> world \<Rightarrow> world" where
  "new_queue sid w =
     w\<lparr>message_queues := (message_queues w)(sid \<mapsto> fresh w),
       heap := (heap w)(fresh w := []),
       fresh := Suc (fresh w)\<rparr>"

text \<open>\<^verbatim>\<open>q.put(ev)\<close> on the queue object at address \<open>q\<close>.\<close>

definition q_put :: "nat \<Rightarrow> event \<Rightarrow> world \<Rightarrow> world" where
  "q_put q ev w = w\<lparr>heap := (heap w)(q := heap w q @ [ev])\<rparr>"

text \<open>\<^verbatim>\<open>message_queues[sid].put(ev)\<close>: the subscript raises KeyError on a missing key.\<close>

definition put :: "string \<Rightarrow> event \<Rightarrow> world \<Rightarrow> crash + world" where
  "put sid ev w =
     (case message_queues w sid of
        None \<Rightarrow> Inl (KeyError sid)
      | Some q \<Rightarrow> Inr (q_put q ev w))"

text \<open>\<^verbatim>\<open>if sid in message_queues: message_queues[sid].put(ev)\<close>\<close>

definition put_if_live :: "string \<Rightarrow> event \<Rightarrow> world \<Rightarrow> world" where
  "put_if_live sid ev w =
     (case message_queues w sid of
        None \<Rightarrow> w
      | Some q \<Rightarrow> q_put q ev w)"

definition log_call :: "call \<Rightarrow> world \<Rightarrow> world" where
  "log_call c w = w\<lparr>calls := calls w @ [c]\<rparr>"

section \<open>Calling a tool\<close>

definition failure :: "string \<Rightarrow> pyval" where
  "failure msg = PDict [(''success'', PBool False), (''error'', PStr msg)]"

text \<open>
  The body of the \<^verbatim>\<open>try\<close> of \<^verbatim>\<open>call_mcp_tool\<close>: the POST, then the status test.
\<close>

definition call_mcp_tool_try :: "ext \<Rightarrow> string \<Rightarrow> pyval \<Rightarrow> exn + pyval" where
  "call_mcp_tool_try x tool arguments =
     (case http_post x tool arguments of
        HttpRaise e \<Rightarrow> Inl e
      | HttpResponse status_code body \<Rightarrow>
          if status_code = 200 then body
          else Inr (failure (''HTTP '' @ str_int status_code)))"

text \<open>
  \<^verbatim>\<open>call_mcp_tool\<close>: the \<^verbatim>\<open>try\<close> with its \<^verbatim>\<open>except Exception as e\<close>. The result is
  a sum like that of every function here that Python could leave by an exception.
\<close>

definition call_mcp_tool :: "ext \<Rightarrow> string \<Rightarrow> pyval \<Rightarrow> world \<Rightarrow> (exn + pyval) \<times> world" where
  "call_mcp_tool x tool arguments w =
     (let w1 = log_call (ToolCall tool arguments) w in
      case call_mcp_tool_try x tool arguments of
        Inr v \<Rightarrow> (Inr v, w1)
      | Inl e \<Rightarrow> (Inr (failure (''Request failed: '' @ str_exn e)), w1))"

section \<open>The two nodes of the agent graph\<close>

text \<open>
  \<^verbatim>\<open>AgentState\<close>. A key that is absent from the dict reads as \<^verbatim>\<open>None\<close> through
  \<^verbatim>\<open>state.get\<close>: \<open>PNone\<close> for \<open>tool_result\<close>, \<open>None\<close> for the others; \<open>msg\<close> is
  always present.
\<close>

record agent_state =
  msg :: string
  tool_result :: pyval
  result :: "string option"
  session_id :: "string option"

definition nl :: string where
  "nl = [CHR 0x0A]"

definition analyzing :: string where
  "analyzing = [CHR 0xF0, CHR 0x9F, CHR 0xA4, CHR 0x94] @ '' Analyzing your request...''"

definition weather_note :: "string \<Rightarrow> string" where
  "weather_note city =
     [CHR 0xF0, CHR 0x9F, CHR 0x8C, CHR 0xA4, CHR 0xEF, CHR 0xB8, CHR 0x8F]
     @ '' Getting weather for '' @ city @ ''...''"

definition search_note :: "string \<Rightarrow> string" where
  "search_note query =
     [CHR 0xF0, CHR 0x9F, CHR 0x94, CHR 0x8D] @ '' Searching for: '' @ query @ ''...''"

definition crafting :: string where
  "crafting = [CHR 0xE2, CHR 0x9C, CHR 0x8D, CHR 0xEF, CHR 0xB8, CHR 0x8F] @ '' Crafting response...''"

definition routing_system :: string where
  "routing_system = ''You are a tool routing assistant. Always respond with valid JSON.''"

definition routing_prompt :: "string \<Rightarrow> string" where
  \<open>routing_prompt m =
     ''Analyze this user request and determine which tool to use:'' @ nl @ nl
     @ ''User request: '' @ m @ nl @ nl
     @ ''Available tools:'' @ nl
     @ ''1. get_weather - Get current weather for a city. Requires: city name'' @ nl
     @ ''2. web_search - Search the web for information. Requires: search query'' @ nl @ nl
     @ ''Respond in JSON format with:'' @ nl
     @ ''{'' @ nl
     @ ''    "tool": "get_weather" | "web_search" | "none",'' @ nl
     @ ''    "parameters": {"city": "..."} or {"query": "..."} or null,'' @ nl
     @ ''    "reasoning": "brief explanation"'' @ nl
     @ ''}'' @ nl @ nl
     @ ''Only use tools if clearly needed. For general conversation, use "none".''\<close>

definition assistant_system :: string where
  "assistant_system = ''You are a helpful assistant.''"

definition grounded_system :: string where
  "grounded_system = ''You are a helpful assistant. Use the tool results to answer naturally and concisely.''"

definition grounded_prompt :: "string \<Rightarrow> string \<Rightarrow> string" where
  "grounded_prompt m tool_data =
     ''Question: '' @ m @ nl @ nl @ ''Tool results:'' @ nl @ tool_data @ nl @ nl
     @ ''Provide a helpful answer (max 150 words).''"

text \<open>
  The guarded status update of a tool branch. The f-string with \<^verbatim>\<open>params.get(key)\<close> is
  evaluated only when the session has a queue, and raises there when \<open>params\<close> is
  not a dict.
\<close>

definition put_note_if_live ::
  "ext \<Rightarrow> string \<Rightarrow> (string \<Rightarrow> string) \<Rightarrow> pyval \<Rightarrow> string \<Rightarrow> world \<Rightarrow> exn + world" where
  "put_note_if_live x sid note params key w =
     (case message_queues w sid of
        None \<Rightarrow> Inr w
      | Some q \<Rightarrow>
          (case py_get params key of
             Inl e \<Rightarrow> Inl e
           | Inr v \<Rightarrow> Inr (q_put q (Status (note (py_str x v))) w)))"

text \<open>
  The \<^verbatim>\<open>try\<close> of \<^verbatim>\<open>route_request\<close>, up to the \<open>tool_result\<close> of the dict it returns.
  What was put into a queue or logged before an exception stays.
\<close>

definition route_request_try :: "ext \<Rightarrow> string \<Rightarrow> string \<Rightarrow> world \<Rightarrow> (exn + pyval) \<times> world" where
  "route_request_try x m sid w =
     (let w1 = log_call (GroqCall routing_system (routing_prompt m)) w in
      case groq x routing_system (routing_prompt m) of
        Inl e \<Rightarrow> (Inl e, w1)
      | Inr content \<Rightarrow>
      (case loads x content of
        Inl e \<Rightarrow> (Inl e, w1)
      | Inr routing_decision \<Rightarrow>
      (case py_get routing_decision ''tool'' of
        Inl e \<Rightarrow> (Inl e, w1)
      | Inr tool \<Rightarrow>
      (case py_get routing_decision ''parameters'' of
        Inl e \<Rightarrow> (Inl e, w1)
      | Inr params \<Rightarrow>
      (case py_get routing_decision ''reasoning'' of
        Inl e \<Rightarrow> (Inl e, w1)
      | Inr reasoning \<Rightarrow>
         (let w2 = put_if_live sid (Routing tool reasoning) w1 in
          if tool = PStr ''get_weather'' \<and> truthy params then
            (case put_note_if_live x sid weather_note params ''city'' w2 of
               Inl e \<Rightarrow> (Inl e, w2)
             | Inr w3 \<Rightarrow> call_mcp_tool x ''get_weather'' params w3)
          else if tool = PStr ''web_search'' \<and> truthy params then
            (case put_note_if_live x sid search_note params ''query'' w2 of
               Inl e \<Rightarrow> (Inl e, w2)
             | Inr w3 \<Rightarrow> call_mcp_tool x ''web_search'' params w3)
          else (Inr PNone, w2)))))))"

definition get_session_id :: "agent_state \<Rightarrow> string" where
  "get_session_id state = (case session_id state of None \<Rightarrow> ''default'' | Some s \<Rightarrow> s)"

text \<open>
  \<^verbatim>\<open>route_request\<close>; the dict it returns updates \<open>msg\<close>, \<open>tool_result\<close> and
  \<open>session_id\<close> of the graph's state.
\<close>

definition route_request :: "ext \<Rightarrow> agent_state \<Rightarrow> world \<Rightarrow> (exn + agent_state) \<times> world" where
  "route_request x state w =
     (let sid = get_session_id state;
          w1 = put_if_live sid (Status analyzing) w in
      case route_request_try x (msg state) sid w1 of
        (Inr r, w2) \<Rightarrow> (Inr (state\<lparr>tool_result := r, session_id := Some sid\<rparr>), w2)
      | (Inl e, w2) \<Rightarrow> (Inr (state\<lparr>tool_result := PNone, session_id := Some sid\<rparr>), w2))"

text \<open>The \<^verbatim>\<open>try\<close> of \<^verbatim>\<open>generate_response\<close>.\<close>

definition generate_response_try ::
  "ext \<Rightarrow> agent_state \<Rightarrow> string \<Rightarrow> world \<Rightarrow> (exn + agent_state) \<times> world" where
  "generate_response_try x state sid w =
     (if tool_result state = PNone then
        (let w1 = log_call (GroqCall assistant_system (msg state)) w in
         case groq x assistant_system (msg state) of
           Inl e \<Rightarrow> (Inl e, w1)
         | Inr content \<Rightarrow>
             (Inr (state\<lparr>tool_result := PNone, result := Some content, session_id := Some sid\<rparr>), w1))
      else
        (case py_get (tool_result state) ''success'' of
           Inl e \<Rightarrow> (Inl e, w)
         | Inr success \<Rightarrow>
             if \<not> truthy success then
               (case py_get_default (tool_result state) ''error'' (PStr ''Unknown error'') of
                  Inl e \<Rightarrow> (Inl e, w)
                | Inr error_msg \<Rightarrow>
                    (Inr (state\<lparr>result := Some (''I encountered an error: '' @ py_str x error_msg),
                                session_id := Some sid\<rparr>), w))
             else
               (case py_get (tool_result state) ''data'' of
                  Inl e \<Rightarrow> (Inl e, w)
                | Inr data \<Rightarrow>
                    (let tool_data = dumps x data;
                         w1 = log_call (GroqCall grounded_system (grounded_prompt (msg state) tool_data)) w in
                     case groq x grounded_system (grounded_prompt (msg state) tool_data) of
                       Inl e \<Rightarrow> (Inl e, w1)
                     | Inr content \<Rightarrow>
                         (Inr (state\<lparr>result := Some content, session_id := Some sid\<rparr>), w1)))))"

text \<open>\<^verbatim>\<open>generate_response\<close>: the status update, the \<^verbatim>\<open>try\<close> and its handler.\<close>

definition generate_response :: "ext \<Rightarrow> agent_state \<Rightarrow> world \<Rightarrow> (exn + agent_state) \<times> world" where
  "generate_response x state w =
     (let sid = get_session_id state;
          w1 = put_if_live sid (Status crafting) w in
      case generate_response_try x state sid w1 of
        (Inr s, w2) \<Rightarrow> (Inr s, w2)
      | (Inl e, w2) \<Rightarrow>
          (Inr (state\<lparr>result := Some (''Error generating response: '' @ str_exn e),
                      session_id := Some sid\<rparr>), w2))"

text \<open>\<^verbatim>\<open>agent_graph.invoke\<close>: the node \<^verbatim>\<open>route\<close>, then the node \<^verbatim>\<open>respond\<close>.\<close>

definition agent_graph_invoke :: "ext \<Rightarrow> agent_state \<Rightarrow> world \<Rightarrow> (exn + agent_state) \<times> world" where
  "agent_graph_invoke x state w =
     (case route_request x state w of
        (Inl e, w1) \<Rightarrow> (Inl e, w1)
      | (Inr s1, w1) \<Rightarrow> generate_response x s1 w1)"

section \<open>The routes\<close>

text \<open>
  The closure \<^verbatim>\<open>process_message\<close> of \<^verbatim>\<open>chat\<close>, run by its thread: the graph, then the
  unguarded put of the final event. An exception ends the thread.
\<close>

definition process_message :: "ext \<Rightarrow> string \<times> string \<Rightarrow> world \<Rightarrow> (crash + unit) \<times> world" where
  "process_message x t w =
     (case t of (user_message, sid) \<Rightarrow>
      (case agent_graph_invoke x
              \<lparr>msg = user_message, tool_result = PNone, result = None, session_id = Some sid\<rparr> w of
         (Inl e, w1) \<Rightarrow> (Inl (Uncaught e), w1)
       | (Inr res, w1) \<Rightarrow>
           (case result res of
              None \<Rightarrow> (Inl (KeyError ''result''), w1)
            | Some r \<Rightarrow>
                (case put sid (Final r) w1 of
                   Inl e \<Rightarrow> (Inl e, w1)
                 | Inr w2 \<Rightarrow> (Inr (), w2)))))"

text \<open>What \<^verbatim>\<open>chat\<close> answers: an error body with its status code, or the acknowledgement.\<close>

datatype reply = ErrorReply int string | Processing string

text \<open>
  \<^verbatim>\<open>chat\<close>, on the JSON body \<open>data\<close> (a dict of strings; a key may be absent). It
  binds a new queue to the session id and starts the thread, which joins \<open>threads\<close>
  and runs later, as \<open>process_message\<close> on its pair. On string keys neither statement
  of the \<^verbatim>\<open>try\<close> raises, so the handler that answers with status 500 has no branch.
\<close>

definition chat :: "(string \<rightharpoonup> string) \<Rightarrow> world \<Rightarrow> reply \<times> world" where
  "chat data w =
     (let user_message = (case data ''message'' of None \<Rightarrow> [] | Some m \<Rightarrow> m);
          sid = (case data ''session_id'' of None \<Rightarrow> ''default'' | Some s \<Rightarrow> s) in
      if user_message = [] then (ErrorReply 400 ''No message provided'', w)
      else
        (let w1 = new_queue sid w in
         (Processing sid, w1\<lparr>threads := threads w1 @ [(user_message, sid)]\<rparr>)))"

text \<open>
  The generator of \<^verbatim>\<open>stream\<close>. \<open>stream_open\<close> is its start: a queue is created only
  when the session has none, and the local \<^verbatim>\<open>q\<close> holds the object from then on.
\<close>

definition stream_open :: "string \<Rightarrow> world \<Rightarrow> nat \<times> world" where
  "stream_open sid w =
     (case message_queues w sid of
        Some q \<Rightarrow> (q, w)
      | None \<Rightarrow> (fresh w, new_queue sid w))"

text \<open>
  The first half of a turn of the \<^verbatim>\<open>while True\<close>: \<^verbatim>\<open>q.get(timeout=30)\<close> returns,
  with the oldest item or, the queue having stayed empty, by \<^verbatim>\<open>queue.Empty\<close>, and
  the frame is yielded. The generator is suspended there; the registry is untouched.
\<close>

definition stream_get :: "nat \<Rightarrow> world \<Rightarrow> frame \<times> world" where
  "stream_get q w =
     (case heap w q of
        [] \<Rightarrow> (Keepalive, w)
      | message # rest \<Rightarrow> (Data message, w\<lparr>heap := (heap w)(q := rest)\<rparr>))"

text \<open>
  The second half, when the generator is resumed after the yield: after a final event
  the session id is deleted from the registry and the loop is left by \<^verbatim>\<open>break\<close>
  (the flag); otherwise the loop goes on. A generator that is closed instead of resumed
  does none of this.
\<close>

definition stream_resume :: "string \<Rightarrow> frame \<Rightarrow> world \<Rightarrow> bool \<times> world" where
  "stream_resume sid f w =
     (case f of
        Keepalive \<Rightarrow> (False, w)
      | Data message \<Rightarrow>
          if is_final message
          then (True, w\<lparr>message_queues := (message_queues w)(sid := None)\<rparr>)
          else (False, w))"

text \<open>A whole turn of a generator that is resumed at once.\<close>

definition stream_step :: "string \<Rightarrow> nat \<Rightarrow> world \<Rightarrow> frame \<times> bool \<times> world" where
  "stream_step sid q w =
     (case stream_get q w of
        (f, w1) \<Rightarrow> (case stream_resume sid f w1 of (ended, w2) \<Rightarrow> (f, ended, w2)))"

text \<open>
  The loop for at most \<open>n\<close> turns of a generator that is always resumed at once, with
  no other thread running in between: the frames yielded, whether the generator ended,
  and the state.
\<close>

fun generate_loop :: "nat \<Rightarrow> string \<Rightarrow> nat \<Rightarrow> world \<Rightarrow> frame list \<times> bool \<times> world" where
  "generate_loop 0 sid q w = ([], False, w)"
| "generate_loop (Suc n) sid q w =
     (case stream_step sid q w of
        (f, True, w1) \<Rightarrow> ([f], True, w1)
      | (f, False, w1) \<Rightarrow>
          (case generate_loop n sid q w1 of (fs, ended, w2) \<Rightarrow> (f # fs, ended, w2)))"

definition generate :: "nat \<Rightarrow> string \<Rightarrow> world \<Rightarrow> frame list \<times> bool \<times> world" where
  "generate n sid w = (case stream_open sid w of (q, w1) \<Rightarrow> generate_loop n sid q w1)"

text \<open>The state of the process at start: no queue, no thread.\<close>

definition init :: world where
  "init = \<lparr>message_queues = Map.empty, heap = (\<lambda>q. []), fresh = 0, threads = [], calls = []\<rparr>"

text \<open>Every registered queue object has been allocated.\<close>

definition wf :: "world \<Rightarrow> bool" where
  "wf w \<longleftrightarrow> (\<forall>sid q. message_queues w sid = Some q \<longrightarrow> q < fresh w)"

text \<open>
  \<open>appended sid evs w w'\<close>: from \<open>w\<close> to \<open>w'\<close> the registry, the allocation and the
  threads are the same, and the only change to a queue is that \<open>evs\<close> were put, in
  this order, into the one registered for \<open>sid\<close> (if there is one).
\<close>

definition appended :: "string \<Rightarrow> event list \<Rightarrow> world \<Rightarrow> world \<Rightarrow> bool" where
  "appended sid evs w w' \<longleftrightarrow>
     message_queues w' = message_queues w \<and> fresh w' = fresh w \<and> threads w' = threads w \<and>
     (\<forall>q. heap w' q = (if message_queues w sid = Some q then heap w q @ evs else heap w q))"

text \<open>
  \<open>quiet sid w w'\<close>: as \<open>appended\<close>, for some events none of which is a final event.
\<close>

definition quiet :: "string \<Rightarrow> world \<Rightarrow> world \<Rightarrow> bool" where
  "quiet sid w w' \<longleftrightarrow> (\<exists>evs. appended sid evs w w' \<and> (\<forall>e\<in>set evs. \<not> is_final e))"

section \<open>Two environments\<close>

text \<open>
  \<open>env_chat\<close>: the routing reply selects no tool, the composer answers.
  \<open>env_weather_down\<close>: the routing reply asks for the weather in Lagos and the tool
  server answers with status 500.
\<close>

definition none_decision :: pyval where
  "none_decision =
     PDict [(''tool'', PStr ''none''), (''parameters'', PNone),
            (''reasoning'', PStr ''general conversation'')]"

definition env_chat :: ext where
  "env_chat =
     \<lparr>groq = (\<lambda>sys user. if sys = routing_system then Inr ''none'' else Inr ''Hello!''),
      loads = (\<lambda>s. Inr none_decision),
      http_post = (\<lambda>tool arguments. HttpRaise (OtherError ''Connection refused'')),
      dumps = (\<lambda>v. ''null''),
      str_other = (\<lambda>v. ''None'')\<rparr>"

definition weather_decision :: pyval where
  "weather_decision =
     PDict [(''tool'', PStr ''get_weather''), (''parameters'', PDict [(''city'', PStr ''Lagos'')]),
            (''reasoning'', PStr ''weather question'')]"

definition env_weather_down :: ext where
  "env_weather_down =
     \<lparr>groq = (\<lambda>sys user. if sys = routing_system then Inr ''weather''
                           else Inl (OtherError ''composer unavailable'')),
      loads = (\<lambda>s. Inr weather_decision),
      http_post = (\<lambda>tool arguments. HttpResponse 500 (Inl (OtherError ''no JSON''))),
      dumps = (\<lambda>v. ''null''),
      str_other = (\<lambda>v. ''None'')\<rparr>"

text \<open>The bodies of three submissions.\<close>

definition hello_s1 :: "string \<rightharpoonup> string" where
  "hello_s1 = [''message'' \<mapsto> ''Hello! How are you?'', ''session_id'' \<mapsto> ''s1'']"

definition again_s1 :: "string \<rightharpoonup> string" where
  "again_s1 = [''message'' \<mapsto> ''And you?'', ''session_id'' \<mapsto> ''s1'']"

definition empty_s1 :: "string \<rightharpoonup> string" where
  "empty_s1 = [''message'' \<mapsto> [], ''session_id'' \<mapsto> ''s1'']"

text \<open>Three states that reach the node \<^verbatim>\<open>respond\<close>.\<close>

definition st_plain :: agent_state where
  "st_plain = \<lparr>msg = ''Hi'', tool_result = PNone, result = None, session_id = Some ''s1''\<rparr>"

definition st_sunny :: agent_state where
  "st_sunny = \<lparr>msg = ''Weather in Lagos?'',
               tool_result = PDict [(''success'', PBool True), (''data'', PStr ''sunny'')],
               result = None, session_id = Some ''s1''\<rparr>"




definition st_hello :: agent_state where
  "st_hello = \<lparr>msg = ''Hello! How are you?'', tool_result = PNone, result = None, session_id = Some ''s1''\<rparr>"

section \<open>Two submissions under one session id\<close>

text \<open>
  The events a run in \<open>env_chat\<close> puts into a registered queue.
\<close>

definition chat_events :: "event list" where
  "chat_events = [Status analyzing, Routing (PStr ''none'') (PStr ''general conversation''),
                  Status crafting, Final ''Hello!'']"

text \<open>
  Both submissions arrive before either thread has run (\<open>w_second\<close>); the first
  thread runs (\<open>w_run1\<close>); then either the second thread runs as well (\<open>w_run2\<close>),
  or a subscriber of \<^verbatim>\<open>/stream/s1\<close> takes four items first (\<open>w_relayed\<close>).
\<close>

definition w_first :: world where
  "w_first = snd (chat hello_s1 init)"

definition w_second :: world where
  "w_second = snd (chat again_s1 w_first)"

definition w_run1 :: world where
  "w_run1 = snd (process_message env_chat (''Hello! How are you?'', ''s1'') w_second)"

definition w_run2 :: world where
  "w_run2 = snd (process_message env_chat (''And you?'', ''s1'') w_run1)"

definition w_relayed :: world where
  "w_relayed = snd (snd (generate 4 ''s1'' w_run1))"

text \<open>
  The other order: the first thread has finished (\<open>w_early\<close>) when the second
  submission arrives (\<open>w_resubmitted\<close>).
\<close>

definition w_early :: world where
  "w_early = snd (process_message env_chat (''Hello! How are you?'', ''s1'') w_first)"

definition w_resubmitted :: world where
  "w_resubmitted = snd (chat again_s1 w_early)"

section \<open>Threads, generators and schedules\<close>

text \<open>
  Where a thread that runs \<^verbatim>\<open>process_message\<close> stands. Between two of these points the
  thread touches the registry at most once (a guarded put, or the put of line 254), or
  waits for an answer from outside; at each of them other threads can run. The values
  carried are the locals of \<^verbatim>\<open>route_request\<close> (\<open>tool\<close>, \<open>params\<close>, \<open>reasoning\<close>), the
  \<open>tool_result\<close> handed to \<^verbatim>\<open>generate_response\<close>, and the response of the final event.
\<close>

datatype pc =
    Analyzing
  | Asking
  | Announcing pyval pyval pyval
  | NotingWeather pyval
  | CallingWeather pyval
  | NotingSearch pyval
  | CallingSearch pyval
  | Crafting pyval
  | Composing pyval
  | Finishing string
  | Finished
  | Died crash

text \<open>
  One step of a thread with message \<open>m\<close> and session id \<open>sid\<close>, from where it stands:
  the same statements as \<open>route_request\<close>, \<open>generate_response\<close> and
  \<open>process_message\<close>, cut at these points. A thread that has ended stays as it is.
\<close>

definition run_step :: "ext \<Rightarrow> string \<Rightarrow> string \<Rightarrow> pc \<Rightarrow> world \<Rightarrow> pc \<times> world" where
  "run_step x m sid p w =
     (case p of
        Analyzing \<Rightarrow> (Asking, put_if_live sid (Status analyzing) w)
      | Asking \<Rightarrow>
          (let w1 = log_call (GroqCall routing_system (routing_prompt m)) w in
           case groq x routing_system (routing_prompt m) of
             Inl e \<Rightarrow> (Crafting PNone, w1)
           | Inr content \<Rightarrow>
           (case loads x content of
             Inl e \<Rightarrow> (Crafting PNone, w1)
           | Inr routing_decision \<Rightarrow>
           (case py_get routing_decision ''tool'' of
             Inl e \<Rightarrow> (Crafting PNone, w1)
           | Inr tool \<Rightarrow>
           (case py_get routing_decision ''parameters'' of
             Inl e \<Rightarrow> (Crafting PNone, w1)
           | Inr params \<Rightarrow>
           (case py_get routing_decision ''reasoning'' of
             Inl e \<Rightarrow> (Crafting PNone, w1)
           | Inr reasoning \<Rightarrow> (Announcing tool params reasoning, w1))))))
      | Announcing tool params reasoning \<Rightarrow>
          (let w2 = put_if_live sid (Routing tool reasoning) w in
           if tool = PStr ''get_weather'' \<and> truthy params then (NotingWeather params, w2)
           else if tool = PStr ''web_search'' \<and> truthy params then (NotingSearch params, w2)
           else (Crafting PNone, w2))
      | NotingWeather params \<Rightarrow>
          (case put_note_if_live x sid weather_note params ''city'' w of
             Inl e \<Rightarrow> (Crafting PNone, w)
           | Inr w3 \<Rightarrow> (CallingWeather params, w3))
      | CallingWeather params \<Rightarrow>
          (case call_mcp_tool x ''get_weather'' params w of
             (Inl e, w4) \<Rightarrow> (Crafting PNone, w4)
           | (Inr r, w4) \<Rightarrow> (Crafting r, w4))
      | NotingSearch params \<Rightarrow>
          (case put_note_if_live x sid search_note params ''query'' w of
             Inl e \<Rightarrow> (Crafting PNone, w)
           | Inr w3 \<Rightarrow> (CallingSearch params, w3))
      | CallingSearch params \<Rightarrow>
          (case call_mcp_tool x ''web_search'' params w of
             (Inl e, w4) \<Rightarrow> (Crafting PNone, w4)
           | (Inr r, w4) \<Rightarrow> (Crafting r, w4))
      | Crafting tr \<Rightarrow> (Composing tr, put_if_live sid (Status crafting) w)
      | Composing tr \<Rightarrow>
          (case generate_response_try x
                  \<lparr>msg = m, tool_result = tr, result = None, session_id = Some sid\<rparr> sid w of
             (Inl e, w2) \<Rightarrow> (Finishing (''Error generating response: '' @ str_exn e), w2)
           | (Inr s, w2) \<Rightarrow>
               (case result s of
                  None \<Rightarrow> (Died (KeyError ''result''), w2)
                | Some r \<Rightarrow> (Finishing r, w2)))
      | Finishing r \<Rightarrow>
          (case put sid (Final r) w of
             Inl c \<Rightarrow> (Died c, w)
           | Inr w' \<Rightarrow> (Finished, w'))
      | Finished \<Rightarrow> (Finished, w)
      | Died c \<Rightarrow> (Died c, w))"

text \<open>
The thread alone for \<open>n\<close> steps.
\<close>

fun run_steps :: "nat \<Rightarrow> ext \<Rightarrow> string \<Rightarrow> string \<Rightarrow> pc \<Rightarrow> world \<Rightarrow> pc \<times> world" where
  "run_steps 0 x m sid p w = (p, w)"
| "run_steps (Suc n) x m sid p w =
     (case run_step x m sid p w of (p', w') \<Rightarrow> run_steps n x m sid p' w')"

text \<open>
  What is left of \<open>process_message\<close> once \<open>route_request\<close> has returned the tool
  result \<open>tr\<close>, with the end of the thread as a \<open>pc\<close>.
\<close>

definition after_route :: "ext \<Rightarrow> string \<Rightarrow> string \<Rightarrow> pyval \<Rightarrow> world \<Rightarrow> pc \<times> world" where
  "after_route x m sid tr w =
     (case generate_response x \<lparr>msg = m, tool_result = tr, result = None, session_id = Some sid\<rparr> w of
        (Inl e, w1) \<Rightarrow> (Died (Uncaught e), w1)
      | (Inr res, w1) \<Rightarrow>
          (case result res of
             None \<Rightarrow> (Died (KeyError ''result''), w1)
           | Some r \<Rightarrow>
               (case put sid (Final r) w1 of
                  Inl c \<Rightarrow> (Died c, w1)
                | Inr w2 \<Rightarrow> (Finished, w2))))"

text \<open>
What a step hands to the queue of its session, if there is one.
\<close>

fun pushes_at :: "ext \<Rightarrow> pc \<Rightarrow> event list" where
  "pushes_at x Analyzing = [Status analyzing]"
| "pushes_at x (Announcing tool params reasoning) = [Routing tool reasoning]"
| "pushes_at x (NotingWeather params) =
     (case py_get params ''city'' of Inl e \<Rightarrow> [] | Inr v \<Rightarrow> [Status (weather_note (py_str x v))])"
| "pushes_at x (NotingSearch params) =
     (case py_get params ''query'' of Inl e \<Rightarrow> [] | Inr v \<Rightarrow> [Status (search_note (py_str x v))])"
| "pushes_at x (Crafting tr) = [Status crafting]"
| "pushes_at x (Finishing r) = [Final r]"
| "pushes_at x p = []"


definition same_but_heap :: "world \<Rightarrow> world \<Rightarrow> bool" where
  "same_but_heap w w' \<longleftrightarrow>
     message_queues w' = message_queues w \<and> fresh w' = fresh w \<and> threads w' = threads w"

text \<open>
  A thread of the process: the \<^verbatim>\<open>user_message\<close> and \<^verbatim>\<open>session_id\<close> of its closure,
  what the outside answers to it, and where it stands.
\<close>

record thread =
  t_msg :: string
  t_sid :: string
  t_env :: ext
  t_pc :: pc

text \<open>
  A generator of \<^verbatim>\<open>stream\<close>, with its \<^verbatim>\<open>session_id\<close> and the queue object its local
  \<^verbatim>\<open>q\<close> holds: blocked in \<^verbatim>\<open>q.get\<close>, suspended at the yield of an item, or ended.
\<close>

datatype gen = Waiting string nat | Yielded string nat event | Closed

text \<open>
  The process with its threads and generators. \<open>puts\<close> records every item put into a
  queue (thread, queue object, event) and \<open>sent\<close> every frame yielded (generator,
  frame), both in the order in which it happened.
\<close>

record system =
  mem :: world
  pool :: "thread list"
  gens :: "gen list"
  puts :: "(nat \<times> nat \<times> event) list"
  sent :: "(nat \<times> frame) list"

text \<open>
  The items that a step from \<open>w\<close> to \<open>w'\<close> added to the queue registered for \<open>sid\<close> in
  \<open>w\<close>, and the threads that \<^verbatim>\<open>chat\<close> started between \<open>w\<close> and \<open>w'\<close>.
\<close>

definition delta :: "string \<Rightarrow> world \<Rightarrow> world \<Rightarrow> (nat \<times> event) list" where
  "delta sid w w' =
     (case message_queues w sid of
        None \<Rightarrow> []
      | Some q \<Rightarrow> map (Pair q) (drop (length (heap w q)) (heap w' q)))"

definition started :: "ext \<Rightarrow> world \<Rightarrow> world \<Rightarrow> thread list" where
  "started x w w' =
     map (\<lambda>(m, sid). \<lparr>t_msg = m, t_sid = sid, t_env = x, t_pc = Analyzing\<rparr>)
       (drop (length (threads w)) (threads w'))"

text \<open>
  What can happen next: a request to \<^verbatim>\<open>/chat\<close> (with what the outside will answer to
  its thread), a step of a thread, a request to \<^verbatim>\<open>/stream/<session_id>\<close> (the generator
  starts and gets its queue), \<^verbatim>\<open>q.get\<close> returning in a generator and the frame being
  yielded, a generator being resumed after the yield of an item, and a generator being
  closed because its client is gone. After a keepalive the generator is back in
  \<^verbatim>\<open>q.get\<close> at once.
\<close>

datatype action =
    Submit "string \<rightharpoonup> string" ext
  | Step nat
  | Subscribe string
  | Get nat
  | Resume nat
  | Disconnect nat

fun apply_action :: "action \<Rightarrow> system \<Rightarrow> system" where
  "apply_action (Submit data x) s =
     (case chat data (mem s) of
        (answer, w') \<Rightarrow> s\<lparr>mem := w', pool := pool s @ started x (mem s) w'\<rparr>)"
| "apply_action (Step i) s =
     (if i < length (pool s) then
        (let t = pool s ! i in
         case run_step (t_env t) (t_msg t) (t_sid t) (t_pc t) (mem s) of
           (p', w') \<Rightarrow>
             s\<lparr>mem := w',
               pool := (pool s)[i := t\<lparr>t_pc := p'\<rparr>],
               puts := puts s @ map (Pair i) (delta (t_sid t) (mem s) w')\<rparr>)
      else s)"
| "apply_action (Subscribe sid) s =
     (case stream_open sid (mem s) of
        (q, w') \<Rightarrow> s\<lparr>mem := w', gens := gens s @ [Waiting sid q]\<rparr>)"
| "apply_action (Get j) s =
     (if j < length (gens s) then
        (case gens s ! j of
           Waiting sid q \<Rightarrow>
             (case stream_get q (mem s) of
                (f, w') \<Rightarrow>
                  s\<lparr>mem := w',
                    gens := (gens s)[j := (case f of Keepalive \<Rightarrow> Waiting sid q
                                           | Data message \<Rightarrow> Yielded sid q message)],
                    sent := sent s @ [(j, f)]\<rparr>)
         | Yielded sid q message \<Rightarrow> s
         | Closed \<Rightarrow> s)
      else s)"
| "apply_action (Resume j) s =
     (if j < length (gens s) then
        (case gens s ! j of
           Yielded sid q message \<Rightarrow>
             (case stream_resume sid (Data message) (mem s) of
                (ended, w') \<Rightarrow>
                  s\<lparr>mem := w', gens := (gens s)[j := (if ended then Closed else Waiting sid q)]\<rparr>)
         | Waiting sid q \<Rightarrow> s
         | Closed \<Rightarrow> s)
      else s)"
| "apply_action (Disconnect j) s =
     (if j < length (gens s) then s\<lparr>gens := (gens s)[j := Closed]\<rparr> else s)"

text \<open>
A schedule is a list of such actions, taken one after the other.
\<close>

fun exec :: "action list \<Rightarrow> system \<Rightarrow> system" where
  "exec [] s = s"
| "exec (a # as) s = exec as (apply_action a s)"

definition init_sys :: system where
  "init_sys = \<lparr>mem = init, pool = [], gens = [], puts = [], sent = []\<rparr>"

text \<open>
Whether a thread has come to its end.
\<close>

fun ended :: "pc \<Rightarrow> bool" where
  "ended Finished = True"
| "ended (Died c) = True"
| "ended p = False"






definition two_readers :: "action list" where
  "two_readers =
     [Submit hello_s1 env_chat, Submit again_s1 env_chat,
      Step 0, Step 0, Step 0, Step 0, Step 0, Step 0, Step 0, Step 0,
      Step 1, Step 1, Step 1, Step 1, Step 1, Step 1, Step 1, Step 1,
      Subscribe ''s1'', Subscribe ''s1'',
      Get 0, Resume 0, Get 0, Resume 0, Get 0, Resume 0, Get 0, Resume 0]"

definition second_reader :: "action list" where
  "second_reader = [Get 1, Resume 1, Get 1, Resume 1, Get 1, Resume 1, Get 1, Resume 1]"




definition w_at_final :: world where
  "w_at_final = snd (snd (generate_loop 3 ''s1'' 1 w_run2))"

definition w_closed :: world where
  "w_closed = snd (snd (generate_loop 4 ''s1'' 1 w_run2))"

section \<open>What a run does to the queues\<close>

lemma appended_refl: "appended sid [] w w"
  by (simp add: appended_def)

lemma appended_trans:
  "appended sid es1 w w1 \<Longrightarrow> appended sid es2 w1 w2 \<Longrightarrow> appended sid (es1 @ es2) w w2"
  by (simp add: appended_def)

lemma appended_put_if_live: "appended sid [ev] w (put_if_live sid ev w)"
  by (auto simp: appended_def put_if_live_def q_put_def split: option.splits)

lemma appended_log_call: "appended sid [] w (log_call c w)"
  by (simp add: appended_def log_call_def)

lemma quiet_refl: "quiet sid w w"
  unfolding quiet_def using appended_refl[of sid w] by fastforce

lemma quiet_put_if_live:
  assumes "quiet sid w w'" "\<not> is_final ev"
  shows "quiet sid w (put_if_live sid ev w')"
proof -
  from assms(1) obtain evs where e: "appended sid evs w w'" "\<forall>e\<in>set evs. \<not> is_final e"
    unfolding quiet_def by blast
  have "appended sid (evs @ [ev]) w (put_if_live sid ev w')"
    by (rule appended_trans[OF e(1) appended_put_if_live])
  moreover have "\<forall>e\<in>set (evs @ [ev]). \<not> is_final e" using e(2) assms(2) by simp
  ultimately show ?thesis unfolding quiet_def by blast
qed

lemma quiet_log_call:
  assumes "quiet sid w w'"
  shows "quiet sid w (log_call c w')"
proof -
  from assms obtain evs where e: "appended sid evs w w'" "\<forall>e\<in>set evs. \<not> is_final e"
    unfolding quiet_def by blast
  have "appended sid (evs @ []) w (log_call c w')"
    by (rule appended_trans[OF e(1) appended_log_call])
  with e(2) show ?thesis unfolding quiet_def by auto
qed

lemma snd_call_mcp_tool:
  "snd (call_mcp_tool x tool arguments w) = log_call (ToolCall tool arguments) w"
  by (simp add: call_mcp_tool_def Let_def split: sum.splits)

lemma call_mcp_tool_Inr: "\<exists>v. fst (call_mcp_tool x tool arguments w) = Inr v"
  by (simp add: call_mcp_tool_def Let_def split: sum.splits)

lemma quiet_call_mcp_tool:
  "quiet sid w w' \<Longrightarrow> quiet sid w (snd (call_mcp_tool x tool arguments w'))"
  by (simp add: snd_call_mcp_tool quiet_log_call)

lemma put_note_cases:
  assumes "put_note_if_live x sid nt params key w = Inr w'"
  shows "w' = w \<or> (\<exists>v. w' = put_if_live sid (Status (nt (py_str x v))) w)"
  using assms
  by (auto simp: put_note_if_live_def put_if_live_def split: option.splits sum.splits)

lemma quiet_put_note:
  assumes "quiet sid w w1" "put_note_if_live x sid nt params key w1 = Inr w2"
  shows "quiet sid w w2"
  using put_note_cases[OF assms(2)] assms(1) quiet_put_if_live[OF assms(1)]
  by auto

lemma quiet_tool_branch:
  assumes "quiet sid w w2"
  shows "quiet sid w (snd (case put_note_if_live x sid nt params key w2 of
               Inl e \<Rightarrow> (Inl e, w2)
             | Inr w3 \<Rightarrow> call_mcp_tool x tool params w3))"
proof (cases "put_note_if_live x sid nt params key w2")
  case (Inl e)
  then show ?thesis using assms by simp
next
  case (Inr w3)
  then show ?thesis using quiet_call_mcp_tool[OF quiet_put_note[OF assms Inr]] by simp
qed

lemma quiet_trans:
  assumes "quiet sid w w1" "quiet sid w1 w2"
  shows "quiet sid w w2"
proof -
  from assms obtain e1 e2 where
    e: "appended sid e1 w w1" "\<forall>e\<in>set e1. \<not> is_final e"
       "appended sid e2 w1 w2" "\<forall>e\<in>set e2. \<not> is_final e"
    unfolding quiet_def by blast
  have "appended sid (e1 @ e2) w w2" by (rule appended_trans[OF e(1) e(3)])
  moreover have "\<forall>e\<in>set (e1 @ e2). \<not> is_final e" using e(2) e(4) by auto
  ultimately show ?thesis unfolding quiet_def by blast
qed

lemma quiet_case_sum:
  assumes "quiet sid w w1" "\<And>v. quiet sid w (snd (k v))"
  shows "quiet sid w (snd (case s of Inl e \<Rightarrow> (Inl e, w1) | Inr v \<Rightarrow> k v))"
  using assms by (cases s) auto

lemma quiet_route_request_try: "quiet sid w (snd (route_request_try x m sid w))"
proof -
  let ?w1 = "log_call (GroqCall routing_system (routing_prompt m)) w"
  have base: "quiet sid w ?w1" by (rule quiet_log_call[OF quiet_refl])
  have routed: "quiet sid w (put_if_live sid (Routing t r) ?w1)" for t r
    by (rule quiet_put_if_live[OF base]) simp
  show ?thesis
    unfolding route_request_try_def Let_def
    apply (rule quiet_case_sum[OF base])+
    apply (auto intro!: quiet_tool_branch routed)
    done
qed

lemma route_request_Inr:
  "fst (route_request x state w) =
     Inr (state\<lparr>tool_result := (case fst (route_request_try x (msg state) (get_session_id state)
                                     (put_if_live (get_session_id state) (Status analyzing) w)) of
                                 Inl e \<Rightarrow> PNone | Inr r \<Rightarrow> r),
               session_id := Some (get_session_id state)\<rparr>)"
  by (simp add: route_request_def Let_def split: prod.splits sum.splits)

lemma snd_route_request:
  "snd (route_request x state w) =
     snd (route_request_try x (msg state) (get_session_id state)
            (put_if_live (get_session_id state) (Status analyzing) w))"
  by (simp add: route_request_def Let_def split: prod.splits sum.splits)

lemma quiet_route_request: "quiet (get_session_id state) w (snd (route_request x state w))"
proof -
  let ?sid = "get_session_id state"
  have "quiet ?sid w (put_if_live ?sid (Status analyzing) w)"
    by (rule quiet_put_if_live[OF quiet_refl]) simp
  have a: "quiet ?sid w (put_if_live ?sid (Status analyzing) w)"
    by (rule quiet_put_if_live[OF quiet_refl]) simp
  have tr: "quiet ?sid w (snd (route_request_try x (msg state) ?sid (put_if_live ?sid (Status analyzing) w)))"
    by (rule quiet_trans[OF a quiet_route_request_try])
  show ?thesis using tr by (simp add: snd_route_request)
qed

lemma snd_generate_response:
  "snd (generate_response x state w) =
     snd (generate_response_try x state (get_session_id state)
            (put_if_live (get_session_id state) (Status crafting) w))"
  by (simp add: generate_response_def Let_def split: prod.splits sum.splits)

lemma quiet_generate_response_try: "quiet sid w (snd (generate_response_try x state sid' w))"
  unfolding generate_response_try_def Let_def
  by (auto simp: quiet_refl quiet_log_call split: sum.splits)

lemma quiet_generate_response: "quiet (get_session_id state) w (snd (generate_response x state w))"
proof -
  let ?sid = "get_session_id state"
  have a: "quiet ?sid w (put_if_live ?sid (Status crafting) w)"
    by (rule quiet_put_if_live[OF quiet_refl]) simp
  show ?thesis
    unfolding snd_generate_response
    by (rule quiet_trans[OF a quiet_generate_response_try])
qed

lemma generate_response_result:
  "\<exists>s r. fst (generate_response x state w) = Inr s \<and> result s = Some r"
  unfolding generate_response_def generate_response_try_def Let_def
  by (auto split: sum.splits prod.splits)

lemma agent_graph_invoke_result:
  "\<exists>s r. fst (agent_graph_invoke x state w) = Inr s \<and> result s = Some r"
proof -
  obtain s w1 where r: "route_request x state w = (Inr s, w1)"
    using route_request_Inr[of x state w] by (cases "route_request x state w") auto
  show ?thesis using generate_response_result[of x s w1] r
    by (simp add: agent_graph_invoke_def)
qed

lemma quiet_agent_graph_invoke:
  "quiet (get_session_id state) w (snd (agent_graph_invoke x state w))"
proof -
  obtain s w1 where r: "route_request x state w = (Inr s, w1)"
    using route_request_Inr[of x state w] by (cases "route_request x state w") auto
  have sid: "get_session_id s = get_session_id state"
    using route_request_Inr[of x state w] r by (auto simp: get_session_id_def)
  have q1: "quiet (get_session_id state) w w1"
    using quiet_route_request[of state w x] r by simp
  have q2: "quiet (get_session_id state) w1 (snd (generate_response x s w1))"
    using quiet_generate_response[of s w1 x] sid by simp
  show ?thesis using quiet_trans[OF q1 q2] r by (simp add: agent_graph_invoke_def)
qed

lemma process_message_live:
  assumes "message_queues w sid = Some q"
  shows "\<exists>evs r w'. process_message x (m, sid) w = (Inr (), w') \<and>
           appended sid (evs @ [Final r]) w w' \<and> (\<forall>e\<in>set evs. \<not> is_final e)"
proof -
  let ?st = "\<lparr>msg = m, tool_result = PNone, result = None, session_id = Some sid\<rparr>"
  have sid: "get_session_id ?st = sid" by (simp add: get_session_id_def)
  obtain s r where s: "fst (agent_graph_invoke x ?st w) = Inr s" "result s = Some r"
    using agent_graph_invoke_result[of x ?st w] by blast
  define w1 where "w1 = snd (agent_graph_invoke x ?st w)"
  have inv: "agent_graph_invoke x ?st w = (Inr s, w1)"
    using s(1) by (simp add: w1_def prod_eq_iff)
  have "quiet sid w w1"
    using quiet_agent_graph_invoke[of ?st w x] sid by (simp add: w1_def)
  then obtain evs where e: "appended sid evs w w1" "\<forall>e\<in>set evs. \<not> is_final e"
    unfolding quiet_def by blast
  from e(1) assms have live: "message_queues w1 sid = Some q" by (simp add: appended_def)
  have p: "put sid (Final r) w1 = Inr (put_if_live sid (Final r) w1)"
    using live by (simp add: put_def put_if_live_def)
  have "appended sid (evs @ [Final r]) w (put_if_live sid (Final r) w1)"
    by (rule appended_trans[OF e(1) appended_put_if_live])
  moreover have "process_message x (m, sid) w = (Inr (), put_if_live sid (Final r) w1)"
    using inv s(2) p by (simp add: process_message_def)
  ultimately show ?thesis using e(2) by blast
qed

lemma process_message_dead:
  assumes "message_queues w sid = None"
  shows "\<exists>w'. process_message x (m, sid) w = (Inl (KeyError sid), w') \<and> appended sid [] w w'"
proof -
  let ?st = "\<lparr>msg = m, tool_result = PNone, result = None, session_id = Some sid\<rparr>"
  have sid: "get_session_id ?st = sid" by (simp add: get_session_id_def)
  obtain s r where s: "fst (agent_graph_invoke x ?st w) = Inr s" "result s = Some r"
    using agent_graph_invoke_result[of x ?st w] by blast
  define w1 where "w1 = snd (agent_graph_invoke x ?st w)"
  have inv: "agent_graph_invoke x ?st w = (Inr s, w1)"
    using s(1) by (simp add: w1_def prod_eq_iff)
  have "quiet sid w w1"
    using quiet_agent_graph_invoke[of ?st w x] sid by (simp add: w1_def)
  then obtain evs where e: "appended sid evs w w1"
    unfolding quiet_def by blast
  from e assms have dead: "message_queues w1 sid = None" by (simp add: appended_def)
  from e assms have "appended sid [] w w1" by (simp add: appended_def)
  moreover have "process_message x (m, sid) w = (Inl (KeyError sid), w1)"
    using inv s(2) dead by (simp add: process_message_def put_def)
  ultimately show ?thesis by blast
qed

lemma appended_heap_live:
  "appended sid evs w w' \<Longrightarrow> message_queues w sid = Some q \<Longrightarrow> heap w' q = heap w q @ evs"
  by (simp add: appended_def)

lemma appended_registry: "appended sid evs w w' \<Longrightarrow> message_queues w' = message_queues w"
  by (simp add: appended_def)


text \<open>The registry only ever holds allocated queue objects.\<close>

lemma wf_init: "wf init"
  by (simp add: wf_def init_def)

lemma wf_new_queue: "wf w \<Longrightarrow> wf (new_queue sid w)"
  by (auto simp: wf_def new_queue_def less_Suc_eq)

lemma wf_chat: "wf w \<Longrightarrow> wf (snd (chat data w))"
  using wf_new_queue[of w] by (auto simp: chat_def Let_def wf_def)

lemma wf_stream_open: "wf w \<Longrightarrow> wf (snd (stream_open sid w))"
  by (simp add: stream_open_def wf_new_queue split: option.splits)

lemma wf_stream_step: "wf w \<Longrightarrow> wf (snd (snd (stream_step sid q w)))"
  by (auto simp: stream_step_def stream_get_def stream_resume_def wf_def split: list.splits)

lemma wf_appended: "appended sid evs w w' \<Longrightarrow> wf w \<Longrightarrow> wf w'"
  by (simp add: appended_def wf_def)

lemma wf_process_message: "wf w \<Longrightarrow> wf (snd (process_message x (m, sid) w))"
proof (cases "message_queues w sid")
  case None
  from process_message_dead[OF None, of x m] show "wf w \<Longrightarrow> ?thesis"
    by (auto dest: wf_appended)
next
  case (Some q)
  from process_message_live[OF Some, of x m] show "wf w \<Longrightarrow> ?thesis"
    by (auto dest: wf_appended)
qed

section \<open>The tool adapter and the compose stage\<close>

lemma str_int_500: "str_int 500 = ''500''"
  by code_simp


text \<open>
  Claim C7. \<^verbatim>\<open>call_mcp_tool\<close> never leaves by an exception: it always returns a value.
  When the request raises (transport failure, timeout) the value is the failure result
  \<open>{success: False, error: "Request failed: ..."}\<close>; when the status code is not 200 it
  is \<open>{success: False, error: "HTTP <code>"}\<close>; a body of a 200 response that is not
  JSON is captured like a failed request.
\<close>

theorem call_mcp_tool_captures:
  "(\<exists>v. fst (call_mcp_tool x tool arguments w) = Inr v) \<and>
   (http_post x tool arguments = HttpRaise e \<longrightarrow>
      fst (call_mcp_tool x tool arguments w) = Inr (failure (''Request failed: '' @ str_exn e))) \<and>
   (http_post x tool arguments = HttpResponse code body \<and> code \<noteq> 200 \<longrightarrow>
      fst (call_mcp_tool x tool arguments w) = Inr (failure (''HTTP '' @ str_int code))) \<and>
   (http_post x tool arguments = HttpResponse 200 (Inl e) \<longrightarrow>
      fst (call_mcp_tool x tool arguments w) = Inr (failure (''Request failed: '' @ str_exn e)))"
  by (auto simp: call_mcp_tool_def call_mcp_tool_try_def Let_def split: sum.splits http_outcome.splits)

theorem call_mcp_tool_captures_witness:
  "http_post env_chat ''web_search'' (PDict [(''query'', PStr ''news'')])
     = HttpRaise (OtherError ''Connection refused'') \<and>
   fst (call_mcp_tool env_chat ''web_search'' (PDict [(''query'', PStr ''news'')]) init)
     = Inr (PDict [(''success'', PBool False), (''error'', PStr ''Request failed: Connection refused'')]) \<and>
   http_post env_weather_down ''get_weather'' (PDict [(''city'', PStr ''Lagos'')])
     = HttpResponse 500 (Inl (OtherError ''no JSON'')) \<and>
   (500::int) \<noteq> 200 \<and>
   fst (call_mcp_tool env_weather_down ''get_weather'' (PDict [(''city'', PStr ''Lagos'')]) init)
     = Inr (PDict [(''success'', PBool False), (''error'', PStr ''HTTP 500'')])"
  using call_mcp_tool_captures[of env_chat "''web_search''" "PDict [(''query'', PStr ''news'')]" init
          "OtherError ''Connection refused''"]
        call_mcp_tool_captures[of env_weather_down "''get_weather''" "PDict [(''city'', PStr ''Lagos'')]" init
          _ 500 "Inl (OtherError ''no JSON'')"]
  by (simp add: env_chat_def env_weather_down_def failure_def str_int_500)

text \<open>
  Claim C6. \<^verbatim>\<open>generate_response\<close> never leaves by an exception, whatever the state,
  the environment and the queues: it returns a state with a \<open>result\<close> string. When
  the composer call raises, on the direct path or on the path grounded in tool data, the
  result is the text \<open>Error generating response: \<close> followed by the exception's text.
\<close>

theorem generate_response_absorbs:
  "(\<exists>s r. fst (generate_response x state w) = Inr s \<and> result s = Some r) \<and>
   (tool_result state = PNone \<and> groq x assistant_system (msg state) = Inl e \<longrightarrow>
      fst (generate_response x state w) =
        Inr (state\<lparr>result := Some (''Error generating response: '' @ str_exn e),
                    session_id := Some (get_session_id state)\<rparr>)) \<and>
   (tool_result state = PDict d \<and> map_of d ''success'' = Some success \<and> truthy success \<and>
    groq x grounded_system
      (grounded_prompt (msg state) (dumps x (case map_of d ''data'' of None \<Rightarrow> PNone | Some v \<Rightarrow> v)))
      = Inl e \<longrightarrow>
      fst (generate_response x state w) =
        Inr (state\<lparr>result := Some (''Error generating response: '' @ str_exn e),
                    session_id := Some (get_session_id state)\<rparr>))"
  apply (intro conjI)
    apply (rule generate_response_result)
   apply (simp add: generate_response_def generate_response_try_def Let_def)
  apply (auto simp: generate_response_def generate_response_try_def Let_def py_get_def split: sum.splits option.splits)
  done

theorem generate_response_absorbs_witness:
  "tool_result st_plain = PNone \<and>
   groq env_weather_down assistant_system (msg st_plain) = Inl (OtherError ''composer unavailable'') \<and>
   fst (generate_response env_weather_down st_plain init) =
     Inr (st_plain\<lparr>result := Some ''Error generating response: composer unavailable''\<rparr>) \<and>
   map_of [(''success'', PBool True), (''data'', PStr ''sunny'')] ''success'' = Some (PBool True) \<and>
   truthy (PBool True) \<and>
   groq env_weather_down grounded_system (grounded_prompt (msg st_sunny) (dumps env_weather_down (PStr ''sunny'')))
     = Inl (OtherError ''composer unavailable'') \<and>
   fst (generate_response env_weather_down st_sunny init) =
     Inr (st_sunny\<lparr>result := Some ''Error generating response: composer unavailable''\<rparr>)"
  using generate_response_absorbs[of env_weather_down st_plain init "OtherError ''composer unavailable''"
          "[]" PNone]
        generate_response_absorbs[of env_weather_down st_sunny init "OtherError ''composer unavailable''"
          "[(''success'', PBool True), (''data'', PStr ''sunny'')]" "PBool True"]
  by (simp add: env_weather_down_def st_plain_def st_sunny_def get_session_id_def
        routing_system_def assistant_system_def grounded_system_def)



section \<open>The generator of the stream endpoint\<close>

lemma generate_loop_idle:
  "heap w q = [] \<Longrightarrow> generate_loop k sid q w = (replicate k Keepalive, False, w)"
  by (induction k) (simp_all add: stream_step_def stream_get_def stream_resume_def)

lemma stream_step_final:
  assumes "heap w q = Final r # rest"
  shows "stream_step sid q w =
           (Data (Final r), True,
            w\<lparr>heap := (heap w)(q := rest), message_queues := (message_queues w)(sid := None)\<rparr>)"
  unfolding stream_step_def stream_get_def stream_resume_def assms by simp

lemma stream_step_other:
  assumes "heap w q = e # rest" "\<not> is_final e"
  shows "stream_step sid q w = (Data e, False, w\<lparr>heap := (heap w)(q := rest)\<rparr>)"
  unfolding stream_step_def stream_get_def stream_resume_def assms(1) using assms(2) by simp

lemma generate_loop_relays:
  assumes "heap w q = evs @ Final r # rest" "filter is_final evs = []" "length evs < n"
  shows "generate_loop n sid q w =
           (map Data evs @ [Data (Final r)], True,
            w\<lparr>heap := (heap w)(q := rest), message_queues := (message_queues w)(sid := None)\<rparr>)"
  using assms
proof (induction evs arbitrary: n w)
  case Nil
  then obtain k where k: "n = Suc k" by (cases n) auto
  from Nil have "heap w q = Final r # rest" by simp
  from stream_step_final[OF this] show ?case unfolding k by (simp add: fun_upd_def)
next
  case (Cons e evs)
  then obtain k where k: "n = Suc k" "length evs < k" by (cases n) auto
  from Cons.prems have nf: "\<not> is_final e" "filter is_final evs = []"
    by (auto split: if_splits)
  let ?w1 = "w\<lparr>heap := (heap w)(q := evs @ Final r # rest)\<rparr>"
  have "heap w q = e # evs @ Final r # rest" using Cons.prems(1) by simp
  from stream_step_other[OF this nf(1)]
  have step: "stream_step sid q w = (Data e, False, ?w1)" .
  have "generate_loop k sid q ?w1 =
          (map Data evs @ [Data (Final r)], True,
           ?w1\<lparr>heap := (heap ?w1)(q := rest), message_queues := (message_queues ?w1)(sid := None)\<rparr>)"
    by (rule Cons.IH) (simp_all add: nf k)
  then have "generate_loop k sid q ?w1 =
          (map Data evs @ [Data (Final r)], True,
           w\<lparr>heap := (heap w)(q := rest), message_queues := (message_queues w)(sid := None)\<rparr>)"
    by simp
  then show ?case unfolding k by (simp add: step fun_upd_def)
qed

lemma generate_unregistered:
  assumes "message_queues w sid = None"
  shows "generate k sid w = (replicate k Keepalive, False, new_queue sid w)"
proof -
  have "heap (new_queue sid w) (fresh w) = []" by (simp add: new_queue_def)
  from generate_loop_idle[OF this, of k sid] show ?thesis
    using assms by (simp add: generate_def stream_open_def)
qed

section \<open>The runs of the two submissions\<close>

lemma env_chat_live:
  assumes "message_queues w sid = Some q"
  shows "process_message env_chat (m, sid) w =
           (Inr (), w\<lparr>heap := (heap w)(q := heap w q @ chat_events),
                      calls := calls w @ [GroqCall routing_system (routing_prompt m),
                                          GroqCall assistant_system m]\<rparr>)"
  using assms
  by (simp add: process_message_def agent_graph_invoke_def route_request_def route_request_try_def
        generate_response_def generate_response_try_def get_session_id_def put_if_live_def
        put_def q_put_def log_call_def py_get_def env_chat_def none_decision_def Let_def
        chat_events_def routing_system_def assistant_system_def)

lemma env_chat_dead:
  assumes "message_queues w sid = None"
  shows "process_message env_chat (m, sid) w =
           (Inl (KeyError sid), w\<lparr>calls := calls w @ [GroqCall routing_system (routing_prompt m),
                                          GroqCall assistant_system m]\<rparr>)"
  using assms
  by (simp add: process_message_def agent_graph_invoke_def route_request_def route_request_try_def
        generate_response_def generate_response_try_def get_session_id_def put_if_live_def
        put_def q_put_def log_call_def py_get_def env_chat_def none_decision_def Let_def)

lemma w_first_simps:
  "message_queues w_first = [''s1'' \<mapsto> 0]" "heap w_first = (\<lambda>q. [])" "fresh w_first = 1"
  "threads w_first = [(''Hello! How are you?'', ''s1'')]" "calls w_first = []"
  by (simp_all add: w_first_def chat_def hello_s1_def init_def new_queue_def Let_def fun_eq_iff)

lemma w_second_simps:
  "message_queues w_second = [''s1'' \<mapsto> 1]" "heap w_second = (\<lambda>q. [])" "fresh w_second = 2"
  "threads w_second = [(''Hello! How are you?'', ''s1''), (''And you?'', ''s1'')]"
  by (simp_all add: w_second_def chat_def again_s1_def new_queue_def Let_def fun_eq_iff w_first_simps)

lemma w_run1_eq:
  "w_run1 = w_second\<lparr>heap := (heap w_second)(1 := heap w_second 1 @ chat_events),
                      calls := calls w_second @ [GroqCall routing_system (routing_prompt ''Hello! How are you?''),
                                          GroqCall assistant_system ''Hello! How are you?'']\<rparr>"
  unfolding w_run1_def
  by (subst env_chat_live[of w_second "''s1''" 1]) (simp_all add: w_second_simps)

lemma w_run1_simps:
  "message_queues w_run1 = [''s1'' \<mapsto> Suc 0]" "heap w_run1 (Suc 0) = chat_events" "heap w_run1 0 = []"
  by (simp_all add: w_run1_eq w_second_simps)

lemma w_run2_eq:
  "w_run2 = w_run1\<lparr>heap := (heap w_run1)(1 := heap w_run1 1 @ chat_events),
                      calls := calls w_run1 @ [GroqCall routing_system (routing_prompt ''And you?''),
                                          GroqCall assistant_system ''And you?'']\<rparr>"
  unfolding w_run2_def
  by (subst env_chat_live[of w_run1 "''s1''" 1]) (simp_all add: w_run1_simps)

lemma w_early_eq:
  "w_early = w_first\<lparr>heap := (heap w_first)(0 := heap w_first 0 @ chat_events),
                      calls := calls w_first @ [GroqCall routing_system (routing_prompt ''Hello! How are you?''),
                                          GroqCall assistant_system ''Hello! How are you?'']\<rparr>"
  unfolding w_early_def
  by (subst env_chat_live[of w_first "''s1''" 0]) (simp_all add: w_first_simps)

lemma w_relayed_simps:
  "fst (generate 4 ''s1'' w_run1) = map Data chat_events"
  "fst (snd (generate 4 ''s1'' w_run1)) = True"
  "message_queues w_relayed ''s1'' = None"
  "heap w_relayed = (heap w_run1)(1 := [])"
proof -
  have "generate_loop 4 ''s1'' 1 w_run1 =
          (map Data (butlast chat_events) @ [Data (Final ''Hello!'')], True,
           w_run1\<lparr>heap := (heap w_run1)(1 := []), message_queues := (message_queues w_run1)(''s1'' := None)\<rparr>)"
    by (rule generate_loop_relays) (simp_all add: w_run1_simps chat_events_def)
  then have g: "generate 4 ''s1'' w_run1 =
          (map Data chat_events, True,
           w_run1\<lparr>heap := (heap w_run1)(1 := []), message_queues := (message_queues w_run1)(''s1'' := None)\<rparr>)"
    by (simp add: generate_def stream_open_def w_run1_simps chat_events_def)
  show "fst (generate 4 ''s1'' w_run1) = map Data chat_events"
    "fst (snd (generate 4 ''s1'' w_run1)) = True"
    "message_queues w_relayed ''s1'' = None"
    "heap w_relayed = (heap w_run1)(1 := [])"
    by (simp_all add: w_relayed_def g)
qed

section \<open>The decide stage\<close>

text \<open>
  Claim C4, as stated, fails. In \<open>env_chat\<close> the routing reply is \<open>{tool: "none"}\<close>,
  and \<^verbatim>\<open>route_request\<close> puts a routing event for it into the queue of session
  \<open>s1\<close>, right after the status update.
\<close>

theorem tool_none_emits_routing:
  "groq env_chat routing_system (routing_prompt (msg st_hello)) = Inr ''none'' \<and>
   loads env_chat ''none'' = Inr none_decision \<and>
   py_get none_decision ''tool'' = Inr (PStr ''none'') \<and>
   message_queues w_first ''s1'' = Some 0 \<and>
   heap w_first 0 = [] \<and>
   heap (snd (route_request env_chat st_hello w_first)) 0 =
     [Status analyzing, Routing (PStr ''none'') (PStr ''general conversation'')]"
  by (simp add: route_request_def route_request_try_def st_hello_def get_session_id_def
        put_if_live_def q_put_def log_call_def py_get_def env_chat_def none_decision_def Let_def
        w_first_simps)

text \<open>
  Claim C4, as the code has it. When the routing reply is a dict whose \<open>tool\<close> is
  \<open>"none"\<close>, \<^verbatim>\<open>route_request\<close> returns no tool result and makes no call to
  \<^verbatim>\<open>call_mcp_tool\<close>: the only external call is the routing request. Into the
  session's queue, when there is one, it puts the status update and then one routing
  event with tool \<open>"none"\<close> and the reply's reasoning; with no queue it puts nothing.
\<close>

theorem route_request_tool_none:
  assumes "groq x routing_system (routing_prompt (msg state)) = Inr content"
      and "loads x content = Inr (PDict d)"
      and "map_of d ''tool'' = Some (PStr ''none'')"
  shows "fst (route_request x state w) =
           Inr (state\<lparr>tool_result := PNone, session_id := Some (get_session_id state)\<rparr>) \<and>
         calls (snd (route_request x state w)) =
           calls w @ [GroqCall routing_system (routing_prompt (msg state))] \<and>
         (message_queues w (get_session_id state) = Some q \<longrightarrow>
            heap (snd (route_request x state w)) q =
              heap w q @ [Status analyzing,
                          Routing (PStr ''none'') (case map_of d ''reasoning'' of None \<Rightarrow> PNone | Some v \<Rightarrow> v)]) \<and>
         (message_queues w (get_session_id state) = None \<longrightarrow>
            heap (snd (route_request x state w)) = heap w)"
  using assms
  by (auto simp: route_request_def route_request_try_def put_if_live_def q_put_def log_call_def
        py_get_def Let_def split: option.splits)

theorem route_request_tool_none_witness:
  "groq env_chat routing_system (routing_prompt (msg st_hello)) = Inr ''none'' \<and>
   loads env_chat ''none'' = Inr none_decision \<and>
   message_queues w_first (get_session_id st_hello) = Some 0 \<and>
   message_queues init (get_session_id st_hello) = None \<and>
   fst (route_request env_chat st_hello w_first) = Inr st_hello \<and>
   calls (snd (route_request env_chat st_hello w_first)) =
     [GroqCall routing_system (routing_prompt ''Hello! How are you?'')] \<and>
   heap (snd (route_request env_chat st_hello w_first)) 0 =
     [Status analyzing, Routing (PStr ''none'') (PStr ''general conversation'')] \<and>
   heap (snd (route_request env_chat st_hello init)) 0 = []"
proof -
  have h: "groq env_chat routing_system (routing_prompt (msg st_hello)) = Inr ''none''"
    "loads env_chat ''none'' = Inr (PDict [(''tool'', PStr ''none''), (''parameters'', PNone),
            (''reasoning'', PStr ''general conversation'')])"
    "message_queues w_first (get_session_id st_hello) = Some 0"
    "message_queues init (get_session_id st_hello) = None"
    by (simp_all add: env_chat_def none_decision_def w_first_simps get_session_id_def st_hello_def init_def)
  have t: "map_of [(''tool'', PStr ''none''), (''parameters'', PNone),
            (''reasoning'', PStr ''general conversation'')] ''tool'' = Some (PStr ''none'')" by simp
  show ?thesis
    using route_request_tool_none[OF h(1) h(2) t, of w_first 0]
          route_request_tool_none[OF h(1) h(2) t, of init 0] h
    by (simp add: none_decision_def w_first_simps st_hello_def get_session_id_def init_def)
qed

section \<open>A thread step by step\<close>

declare run_steps.simps [simp del]

lemma run_steps_ended:
  "run_steps k x m sid Finished w = (Finished, w)"
  "run_steps k x m sid (Died c) w = (Died c, w)"
  by (induction k) (simp_all add: run_step_def run_steps.simps)

lemma run_steps_Crafting:
  "run_steps (Suc (Suc (Suc n))) x m sid (Crafting tr) w = after_route x m sid tr w"
  by (simp add: after_route_def run_step_def generate_response_def get_session_id_def Let_def
        run_steps_ended run_steps.simps split: prod.splits sum.splits option.splits)

lemma run_steps_CallingWeather:
  "run_steps (Suc (Suc (Suc (Suc n)))) x m sid (CallingWeather params) w =
     (case call_mcp_tool x ''get_weather'' params w of
        (Inl e, w4) \<Rightarrow> after_route x m sid PNone w4
      | (Inr r, w4) \<Rightarrow> after_route x m sid r w4)"
  unfolding run_steps.simps(2)[of "Suc (Suc (Suc n))"]
  by (simp add: run_step_def run_steps_Crafting split: prod.splits sum.splits)

lemma run_steps_CallingSearch:
  "run_steps (Suc (Suc (Suc (Suc n)))) x m sid (CallingSearch params) w =
     (case call_mcp_tool x ''web_search'' params w of
        (Inl e, w4) \<Rightarrow> after_route x m sid PNone w4
      | (Inr r, w4) \<Rightarrow> after_route x m sid r w4)"
  unfolding run_steps.simps(2)[of "Suc (Suc (Suc n))"]
  by (simp add: run_step_def run_steps_Crafting split: prod.splits sum.splits)

lemma run_steps_NotingWeather:
  "run_steps (Suc (Suc (Suc (Suc (Suc n))))) x m sid (NotingWeather params) w =
     (case put_note_if_live x sid weather_note params ''city'' w of
        Inl e \<Rightarrow> after_route x m sid PNone w
      | Inr w3 \<Rightarrow>
          (case call_mcp_tool x ''get_weather'' params w3 of
             (Inl e, w4) \<Rightarrow> after_route x m sid PNone w4
           | (Inr r, w4) \<Rightarrow> after_route x m sid r w4))"
  unfolding run_steps.simps(2)[of "Suc (Suc (Suc (Suc n)))"]
  by (simp add: run_step_def run_steps_Crafting run_steps_CallingWeather split: sum.splits)

lemma run_steps_NotingSearch:
  "run_steps (Suc (Suc (Suc (Suc (Suc n))))) x m sid (NotingSearch params) w =
     (case put_note_if_live x sid search_note params ''query'' w of
        Inl e \<Rightarrow> after_route x m sid PNone w
      | Inr w3 \<Rightarrow>
          (case call_mcp_tool x ''web_search'' params w3 of
             (Inl e, w4) \<Rightarrow> after_route x m sid PNone w4
           | (Inr r, w4) \<Rightarrow> after_route x m sid r w4))"
  unfolding run_steps.simps(2)[of "Suc (Suc (Suc (Suc n)))"]
  by (simp add: run_step_def run_steps_Crafting run_steps_CallingSearch split: sum.splits)

lemma run_steps_Announcing:
  "run_steps (Suc (Suc (Suc (Suc (Suc (Suc n)))))) x m sid (Announcing tool params reasoning) w =
     (let w2 = put_if_live sid (Routing tool reasoning) w in
      if tool = PStr ''get_weather'' \<and> truthy params then
        run_steps (Suc (Suc (Suc (Suc (Suc n))))) x m sid (NotingWeather params) w2
      else if tool = PStr ''web_search'' \<and> truthy params then
        run_steps (Suc (Suc (Suc (Suc (Suc n))))) x m sid (NotingSearch params) w2
      else after_route x m sid PNone w2)"
  unfolding run_steps.simps(2)[of "Suc (Suc (Suc (Suc (Suc n))))"]
  by (simp add: run_step_def run_steps_Crafting Let_def)

lemma run_steps_Asking:
  "run_steps (Suc (Suc (Suc (Suc (Suc (Suc (Suc n))))))) x m sid Asking w =
     (case route_request_try x m sid w of
        (Inl e, w2) \<Rightarrow> after_route x m sid PNone w2
      | (Inr r, w2) \<Rightarrow> after_route x m sid r w2)"
  unfolding run_steps.simps(2)[of "Suc (Suc (Suc (Suc (Suc (Suc n)))))"]
  apply (simp add: run_step_def route_request_try_def Let_def run_steps_Crafting
      run_steps_Announcing run_steps_NotingWeather run_steps_NotingSearch
      split: sum.split)
  done

text \<open>
  A thread that takes its eight steps with nothing in between does what
  \<open>process_message\<close> does.
\<close>

lemma run_alone:
  "run_steps 8 x m sid Analyzing w =
     (case process_message x (m, sid) w of
        (Inl c, w') \<Rightarrow> (Died c, w')
      | (Inr u, w') \<Rightarrow> (Finished, w'))"
proof -
  have eight: "(8::nat) = Suc (Suc (Suc (Suc (Suc (Suc (Suc (Suc 0)))))))" by simp
  have a: "run_steps 8 x m sid Analyzing w =
      (case route_request_try x m sid (put_if_live sid (Status analyzing) w) of
        (Inl e, w2) \<Rightarrow> after_route x m sid PNone w2
      | (Inr r, w2) \<Rightarrow> after_route x m sid r w2)"
    unfolding eight run_steps.simps(2)[of "Suc (Suc (Suc (Suc (Suc (Suc (Suc 0))))))"]
    by (simp add: run_step_def run_steps_Asking)
  show ?thesis
    unfolding a
    by (simp add: process_message_def agent_graph_invoke_def route_request_def after_route_def
        get_session_id_def Let_def split: prod.splits sum.splits option.splits)
qed

lemma generate_response_try_mem:
  "message_queues (snd (generate_response_try x state sid w)) = message_queues w"
  "heap (snd (generate_response_try x state sid w)) = heap w"
  "fresh (snd (generate_response_try x state sid w)) = fresh w"
  "threads (snd (generate_response_try x state sid w)) = threads w"
  by (auto simp: generate_response_try_def log_call_def Let_def split: sum.splits)

lemma generate_response_try_result:
  "fst (generate_response_try x state sid w) = Inr s \<Longrightarrow> result s \<noteq> None"
  by (auto simp: generate_response_try_def Let_def split: sum.splits if_splits)

lemma call_mcp_tool_mem:
  "message_queues (snd (call_mcp_tool x tool arguments w)) = message_queues w"
  "heap (snd (call_mcp_tool x tool arguments w)) = heap w"
  "fresh (snd (call_mcp_tool x tool arguments w)) = fresh w"
  "threads (snd (call_mcp_tool x tool arguments w)) = threads w"
  by (simp_all add: snd_call_mcp_tool log_call_def)

lemma put_if_live_mem:
  "message_queues (put_if_live sid ev w) = message_queues w"
  "fresh (put_if_live sid ev w) = fresh w"
  "threads (put_if_live sid ev w) = threads w"
  "heap (put_if_live sid ev w) =
     (case message_queues w sid of None \<Rightarrow> heap w | Some q \<Rightarrow> (heap w)(q := heap w q @ [ev]))"
  by (simp_all add: put_if_live_def q_put_def split: option.splits)

lemma put_note_mem:
  assumes "put_note_if_live x sid nt params key w = Inr w'"
  shows "message_queues w' = message_queues w" "fresh w' = fresh w" "threads w' = threads w"
    "heap w' = (case message_queues w sid of None \<Rightarrow> heap w
                | Some q \<Rightarrow> (heap w)(q := heap w q @
                     (case py_get params key of Inl e \<Rightarrow> [] | Inr v \<Rightarrow> [Status (nt (py_str x v))])))"
  using assms
  by (auto simp: put_note_if_live_def q_put_def split: option.splits sum.splits)

lemma put_note_Inl:
  "put_note_if_live x sid nt params key w = Inl e \<Longrightarrow>
     message_queues w sid \<noteq> None \<and> py_get params key = Inl e"
  by (auto simp: put_note_if_live_def split: option.splits sum.splits)

lemma call_mcp_tool_eq:
  "call_mcp_tool x tool arguments w = (r, w') \<Longrightarrow> w' = log_call (ToolCall tool arguments) w"
  using snd_call_mcp_tool[of x tool arguments w] by simp

lemma generate_response_try_eq:
  assumes "generate_response_try x state sid w = (r, w')"
  shows "message_queues w' = message_queues w" "heap w' = heap w" "fresh w' = fresh w"
    "threads w' = threads w"
  using generate_response_try_mem[of x state sid w] assms by simp_all

text \<open>
  A step leaves the registry, the allocation and the threads alone; to the queues it
  does nothing but append what \<open>pushes_at\<close> says to the queue registered for the
  session at that moment.
\<close>

lemma run_step_same:
  "same_but_heap w (snd (run_step x m sid p w))"
proof (cases p)
  case Asking
  then show ?thesis
    by (simp add: run_step_def same_but_heap_def log_call_def Let_def split: sum.splits)
next
  case (NotingWeather params)
  then show ?thesis
    by (auto simp: run_step_def same_but_heap_def put_note_mem split: sum.splits)
next
  case (NotingSearch params)
  then show ?thesis
    by (auto simp: run_step_def same_but_heap_def put_note_mem split: sum.splits)
next
  case (CallingWeather params)
  then show ?thesis
    by (auto simp: run_step_def same_but_heap_def log_call_def split: sum.splits prod.splits
          dest!: call_mcp_tool_eq)
next
  case (CallingSearch params)
  then show ?thesis
    by (auto simp: run_step_def same_but_heap_def log_call_def split: sum.splits prod.splits
          dest!: call_mcp_tool_eq)
next
  case (Composing tr)
  then show ?thesis
    by (auto simp: run_step_def same_but_heap_def split: sum.splits prod.splits option.splits
          dest: generate_response_try_eq)
next
  case (Finishing r)
  then show ?thesis
    by (auto simp: run_step_def same_but_heap_def put_def q_put_def split: option.splits)
qed (simp_all add: run_step_def same_but_heap_def put_if_live_mem Let_def)

lemma run_step_heap:
  "heap (snd (run_step x m sid p w)) =
     (case message_queues w sid of
        None \<Rightarrow> heap w
      | Some q \<Rightarrow> (heap w)(q := heap w q @ pushes_at x p))"
proof (cases p)
  case Asking
  then show ?thesis
    by (simp add: run_step_def log_call_def Let_def split: sum.splits option.splits)
next
  case (NotingWeather params)
  then show ?thesis
    by (auto simp: run_step_def put_note_mem split: sum.splits option.splits
          dest: put_note_Inl)
next
  case (NotingSearch params)
  then show ?thesis
    by (auto simp: run_step_def put_note_mem split: sum.splits option.splits
          dest: put_note_Inl)
next
  case (CallingWeather params)
  then show ?thesis
    by (auto simp: run_step_def log_call_def split: sum.splits prod.splits option.splits
          dest!: call_mcp_tool_eq)
next
  case (CallingSearch params)
  then show ?thesis
    by (auto simp: run_step_def log_call_def split: sum.splits prod.splits option.splits
          dest!: call_mcp_tool_eq)
next
  case (Composing tr)
  then show ?thesis
    by (auto simp: run_step_def split: sum.splits prod.splits option.splits
          dest: generate_response_try_eq)
next
  case (Finishing r)
  then show ?thesis
    by (auto simp: run_step_def put_def q_put_def split: option.splits)
qed (simp_all add: run_step_def put_if_live_mem Let_def split: option.splits)



section \<open>Schedules\<close>

lemma exec_append: "exec (as @ bs) s = exec bs (exec as s)"
  by (induction as arbitrary: s) simp_all





















lemma chat_rejects:
  assumes "data ''message'' = None \<or> data ''message'' = Some []"
  shows "chat data w = (ErrorReply 400 ''No message provided'', w)"
  using assms by (auto simp: chat_def Let_def)

lemma apply_rejected:
  assumes "data ''message'' = None \<or> data ''message'' = Some []"
  shows "apply_action (Submit data x) s = s"
  using chat_rejects[of data "mem s"] assms by (simp add: started_def)





lemmas eval_defs = chat_def hello_s1_def again_s1_def init_def new_queue_def started_def Let_def
  run_step_def delta_def put_if_live_def q_put_def put_def log_call_def py_get_def env_chat_def
  none_decision_def generate_response_try_def routing_system_def assistant_system_def
  init_sys_def stream_open_def stream_get_def stream_resume_def




lemma w_run2_heap: "heap w_run2 (Suc 0) = chat_events @ chat_events"
  by (simp add: w_run2_eq w_run1_simps)

lemma w_closed_simps:
  "generate_loop 4 ''s1'' 1 w_run2 = (map Data chat_events, True, w_closed)"
  "message_queues w_closed ''s1'' = None"
  "heap w_closed (Suc 0) = chat_events"
proof -
  have g: "generate_loop 4 ''s1'' 1 w_run2 =
          (map Data (butlast chat_events) @ [Data (Final ''Hello!'')], True,
           w_run2\<lparr>heap := (heap w_run2)(1 := chat_events),
                   message_queues := (message_queues w_run2)(''s1'' := None)\<rparr>)"
    by (rule generate_loop_relays) (simp_all add: w_run2_heap chat_events_def)
  show "generate_loop 4 ''s1'' 1 w_run2 = (map Data chat_events, True, w_closed)"
    "message_queues w_closed ''s1'' = None"
    "heap w_closed (Suc 0) = chat_events"
    unfolding w_closed_def g by (simp_all add: chat_events_def)
qed

lemma w_at_final_simps:
  "heap w_at_final (Suc 0) = Final ''Hello!'' # chat_events"
  by (simp add: w_at_final_def eval_nat_numeral stream_step_def stream_get_def stream_resume_def
        w_run2_heap chat_events_def)

section \<open>Runs and their final event\<close>




text \<open>
  Claim C3: a put for a session without a queue is to be a silent no-op, for the final
  event as for the others. After the subscriber has relayed the first run's final event
  the session \<open>s1\<close> has no queue. The second run then leaves every queue untouched, its
  status and routing updates being skipped, but its put of the final event raises
  \<open>KeyError\<close>.
\<close>

theorem final_put_raises:
  "message_queues w_relayed ''s1'' = None \<and>
   fst (process_message env_chat (''And you?'', ''s1'') w_relayed) = Inl (KeyError ''s1'') \<and>
   heap (snd (process_message env_chat (''And you?'', ''s1'') w_relayed)) = heap w_relayed"
  by (simp add: env_chat_dead[of w_relayed "''s1''"] w_relayed_simps)

section \<open>Submissions and channels\<close>

text \<open>
  Claim C2, as stated, fails. The first run has put its four events into the queue of
  \<open>s1\<close>, object 0, and none was taken; the second submission under \<open>s1\<close> binds
  the key to another object, 1, which is empty.
\<close>

theorem resubmission_replaces_queue:
  "message_queues w_early ''s1'' = Some 0 \<and>
   heap w_early 0 =
     [Status analyzing, Routing (PStr ''none'') (PStr ''general conversation''),
      Status crafting, Final ''Hello!''] \<and>
   fst (chat again_s1 w_early) = Processing ''s1'' \<and>
   message_queues w_resubmitted ''s1'' = Some 1 \<and>
   heap w_resubmitted 1 = []"
  by (simp add: w_resubmitted_def w_early_eq w_first_simps chat_events_def chat_def again_s1_def
        new_queue_def Let_def)

text \<open>
  Claim C2, as the code has it. A valid submission always binds its session id to a new,
  empty queue object; it leaves the items of every other queue object, the replaced one
  included, and the other keys as they were, and a queue allocated earlier that was
  registered for the session id is no longer the registered one. A step of a thread
  never changes the registry, and what it puts goes into the queue that is registered
  for its session id at that moment; no queue changes if none is registered. The start
  of the stream generator returns the registered queue and changes nothing when there
  is one, and creates and registers an empty one otherwise.
\<close>

theorem chat_binds_new_queue:
  "(data ''message'' = Some m \<and> m \<noteq> [] \<and>
    sid = (case data ''session_id'' of None \<Rightarrow> ''default'' | Some s \<Rightarrow> s) \<longrightarrow>
      message_queues (snd (chat data w)) sid = Some (fresh w) \<and>
      heap (snd (chat data w)) (fresh w) = [] \<and>
      (\<forall>q. q \<noteq> fresh w \<longrightarrow> heap (snd (chat data w)) q = heap w q) \<and>
      (\<forall>q. message_queues w sid = Some q \<and> q < fresh w \<longrightarrow>
           message_queues (snd (chat data w)) sid \<noteq> Some q) \<and>
      (\<forall>k. k \<noteq> sid \<longrightarrow> message_queues (snd (chat data w)) k = message_queues w k)) \<and>
   (message_queues w sid' = Some q' \<longrightarrow>
      stream_open sid' w = (q', w) \<and>
      heap (snd (run_step x m' sid' p w)) = (heap w)(q' := heap w q' @ pushes_at x p)) \<and>
   (message_queues w sid' = None \<longrightarrow>
      fst (stream_open sid' w) = fresh w \<and>
      message_queues (snd (stream_open sid' w)) sid' = Some (fresh w) \<and>
      heap (snd (stream_open sid' w)) (fresh w) = [] \<and>
      heap (snd (run_step x m' sid' p w)) = heap w) \<and>
   message_queues (snd (run_step x m' sid' p w)) = message_queues w"
proof -
  have "message_queues (snd (run_step x m' sid' p w)) = message_queues w"
    using run_step_same[of w x m' sid' p] by (simp add: same_but_heap_def)
  then show ?thesis
    by (auto simp: chat_def Let_def new_queue_def stream_open_def run_step_heap)
qed

theorem chat_binds_new_queue_witness:
  "again_s1 ''message'' = Some ''And you?'' \<and> ''And you?'' \<noteq> [] \<and>
   message_queues w_early ''s1'' = Some 0 \<and> 0 < fresh w_early \<and>
   message_queues (snd (chat again_s1 w_early)) ''s1'' = Some (fresh w_early) \<and>
   heap (snd (chat again_s1 w_early)) (fresh w_early) = [] \<and>
   stream_open ''s1'' w_early = (0, w_early) \<and>
   heap (snd (run_step env_chat ''And you?'' ''s1'' Analyzing w_early)) 0 =
     heap w_early 0 @ [Status analyzing] \<and>
   message_queues init ''s1'' = None \<and>
   fst (stream_open ''s1'' init) = fresh init \<and>
   heap (snd (stream_open ''s1'' init)) (fresh init) = [] \<and>
   heap (snd (run_step env_chat ''And you?'' ''s1'' Analyzing init)) = heap init"
proof -
  have h: "again_s1 ''message'' = Some ''And you?''" "again_s1 ''session_id'' = Some ''s1''"
    "message_queues w_early ''s1'' = Some 0" "0 < fresh w_early" "message_queues init ''s1'' = None"
    by (simp_all add: again_s1_def w_early_eq w_first_simps init_def)
  show ?thesis
    using chat_binds_new_queue[of again_s1 "''And you?''" "''s1''" w_early "''s1''" 0 env_chat
            "''And you?''" Analyzing]
          chat_binds_new_queue[of again_s1 "''And you?''" "''s1''" init "''s1''" 0 env_chat
            "''And you?''" Analyzing] h
    by simp
qed




text \<open>
  Claim C9, as stated, fails. The submission with the empty message is answered with
  status 400 and changes nothing, yet a subscriber of \<^verbatim>\<open>/stream/s1\<close> is sent
  frames: keepalives.
\<close>

theorem rejected_session_still_streams:
  "empty_s1 ''message'' = Some [] \<and>
   chat empty_s1 init = (ErrorReply 400 ''No message provided'', init) \<and>
   fst (generate 2 ''s1'' (snd (chat empty_s1 init))) = [Keepalive, Keepalive]"
  by (simp add: chat_def empty_s1_def Let_def generate_unregistered init_def eval_nat_numeral)

text \<open>
  Claim C9, as the code has it. A submission whose message is absent or empty is answered
  with status 400 and leaves the whole state as it was: no queue is created, no thread is
  started, nothing is put; in every schedule, the process is in the same state, with the
  same frames sent, as without that submission. Frames are still produced for its session
  id: a subscription creates and registers an empty queue when the id has none, and a
  generator whose queue is empty at the timeout yields a keepalive.
\<close>

theorem chat_empty_rejected:
  assumes "data ''message'' = None \<or> data ''message'' = Some []"
  shows "chat data w = (ErrorReply 400 ''No message provided'', w) \<and>
         apply_action (Submit data x) s = s \<and>
         exec (as @ Submit data x # bs) s = exec (as @ bs) s \<and>
         (message_queues w sid = None \<longrightarrow>
            message_queues (snd (stream_open sid w)) sid = Some (fresh w) \<and>
            heap (snd (stream_open sid w)) (fresh w) = []) \<and>
         (heap w q = [] \<longrightarrow> stream_get q w = (Keepalive, w))"
proof -
  have r: "apply_action (Submit data x) u = u" for u
    using apply_rejected[of data x u] assms by simp
  have "exec (as @ Submit data x # bs) s = exec (as @ bs) s"
    by (simp add: exec_append r del: apply_action.simps)
  then show ?thesis
    using chat_rejects[of data w] assms r[of s]
    by (auto simp: stream_open_def new_queue_def stream_get_def simp del: apply_action.simps)
qed

theorem chat_empty_rejected_witness:
  "empty_s1 ''message'' = Some [] \<and>
   chat empty_s1 init = (ErrorReply 400 ''No message provided'', init) \<and>
   apply_action (Submit empty_s1 env_chat) init_sys = init_sys \<and>
   exec ([Subscribe ''s1''] @ Submit empty_s1 env_chat # [Get 0]) init_sys
     = exec ([Subscribe ''s1''] @ [Get 0]) init_sys \<and>
   message_queues init ''s1'' = None \<and>
   message_queues (snd (stream_open ''s1'' init)) ''s1'' = Some (fresh init) \<and>
   heap init 0 = [] \<and>
   stream_get 0 init = (Keepalive, init)"
proof -
  have h: "empty_s1 ''message'' = None \<or> empty_s1 ''message'' = Some []"
    "empty_s1 ''message'' = Some []" "message_queues init ''s1'' = None" "heap init 0 = []"
    by (simp_all add: empty_s1_def init_def)
  from chat_empty_rejected[of empty_s1 init env_chat init_sys "[Subscribe ''s1'']" "[Get 0]" "''s1''" 0] h
  show ?thesis by (simp del: apply_action.simps exec.simps)
qed

section \<open>After the final event\<close>

text \<open>
  Claim C8, as stated, fails. Two threads have put their events into the queue
  registered for \<open>s1\<close>, and two generators hold that queue. The first is sent the
  events up to the first final event and is resumed: it has ended and \<open>s1\<close> is no
  longer registered. The second generator is then still sent the four events left in
  the queue.
\<close>

theorem drained_after_final:
  "gens (exec two_readers init_sys) = [Closed, Waiting ''s1'' 1] \<and>
   sent (exec two_readers init_sys) =
     [(0, Data (Status analyzing)), (0, Data (Routing (PStr ''none'') (PStr ''general conversation''))),
      (0, Data (Status crafting)), (0, Data (Final ''Hello!''))] \<and>
   message_queues (mem (exec two_readers init_sys)) ''s1'' = None \<and>
   sent (exec (two_readers @ second_reader) init_sys) =
     [(0, Data (Status analyzing)), (0, Data (Routing (PStr ''none'') (PStr ''general conversation''))),
      (0, Data (Status crafting)), (0, Data (Final ''Hello!'')),
      (1, Data (Status analyzing)), (1, Data (Routing (PStr ''none'') (PStr ''general conversation''))),
      (1, Data (Status crafting)), (1, Data (Final ''Hello!''))]"
  by (simp add: two_readers_def second_reader_def eval_defs)

text \<open>
  Claim C8, as the code has it. A generator whose queue has a final event in front yields
  it and leaves the registry as it is; resumed after that, it deletes the session id from
  the registry and ends, so a generator that is always resumed at once relays the items
  up to and including the first final event and ends with the session id deleted. A
  generator that is closed leaves the state as it is. The queue object remains: a
  generator holding it is sent its oldest item whatever the registry says. While the
  session id is absent from the registry a guarded put for it changes nothing, and a new
  subscription creates and registers a new empty queue, whose first frame, with nothing
  put in between, is a keepalive.
\<close>

theorem final_relay_unregisters:
  "(heap w q = Final r # rest \<longrightarrow>
      stream_get q w = (Data (Final r), w\<lparr>heap := (heap w)(q := rest)\<rparr>)) \<and>
   stream_resume sid (Data (Final r)) w =
     (True, w\<lparr>message_queues := (message_queues w)(sid := None)\<rparr>) \<and>
   (heap w q = evs @ Final r # rest \<and> filter is_final evs = [] \<and> length evs < n \<longrightarrow>
      generate_loop n sid q w =
        (map Data evs @ [Data (Final r)], True,
         w\<lparr>heap := (heap w)(q := rest), message_queues := (message_queues w)(sid := None)\<rparr>)) \<and>
   mem (apply_action (Disconnect j) s) = mem s \<and>
   (heap w q = e # rest \<longrightarrow>
      stream_get q w = (Data e, w\<lparr>heap := (heap w)(q := rest)\<rparr>)) \<and>
   (message_queues w sid = None \<longrightarrow>
      put_if_live sid ev w = w \<and>
      fst (stream_open sid w) = fresh w \<and>
      message_queues (snd (stream_open sid w)) sid = Some (fresh w) \<and>
      heap (snd (stream_open sid w)) (fresh w) = [] \<and>
      fst (stream_get (fresh w) (snd (stream_open sid w))) = Keepalive)"
proof -
  have relay: "generate_loop n sid q w =
        (map Data evs @ [Data (Final r)], True,
         w\<lparr>heap := (heap w)(q := rest), message_queues := (message_queues w)(sid := None)\<rparr>)"
    if "heap w q = evs @ Final r # rest \<and> filter is_final evs = [] \<and> length evs < n"
    using that generate_loop_relays[of w q evs r rest n sid] by blast
  have rest: "(heap w q = Final r # rest \<longrightarrow>
      stream_get q w = (Data (Final r), w\<lparr>heap := (heap w)(q := rest)\<rparr>)) \<and>
   stream_resume sid (Data (Final r)) w =
     (True, w\<lparr>message_queues := (message_queues w)(sid := None)\<rparr>) \<and>
   mem (apply_action (Disconnect j) s) = mem s \<and>
   (heap w q = e # rest \<longrightarrow>
      stream_get q w = (Data e, w\<lparr>heap := (heap w)(q := rest)\<rparr>)) \<and>
   (message_queues w sid = None \<longrightarrow>
      put_if_live sid ev w = w \<and>
      fst (stream_open sid w) = fresh w \<and>
      message_queues (snd (stream_open sid w)) sid = Some (fresh w) \<and>
      heap (snd (stream_open sid w)) (fresh w) = [] \<and>
      fst (stream_get (fresh w) (snd (stream_open sid w))) = Keepalive)"
    by (auto simp: stream_get_def stream_resume_def stream_open_def new_queue_def put_if_live_def)
  show ?thesis using relay rest by blast
qed

theorem final_relay_unregisters_witness:
  "heap w_at_final 1 = Final ''Hello!'' # chat_events \<and>
   fst (stream_get 1 w_at_final) = Data (Final ''Hello!'') \<and>
   message_queues (snd (stream_get 1 w_at_final)) = message_queues w_at_final \<and>
   fst (stream_resume ''s1'' (Data (Final ''Hello!'')) (snd (stream_get 1 w_at_final))) = True \<and>
   message_queues (snd (stream_resume ''s1'' (Data (Final ''Hello!'')) (snd (stream_get 1 w_at_final))))
      ''s1'' = None \<and>
   heap w_run2 1 = butlast chat_events @ Final ''Hello!'' # chat_events \<and>
   filter is_final (butlast chat_events) = [] \<and>
   length (butlast chat_events) < 4 \<and>
   fst (generate_loop 4 ''s1'' 1 w_run2) = map Data chat_events \<and>
   fst (snd (generate_loop 4 ''s1'' 1 w_run2)) = True \<and>
   message_queues w_closed ''s1'' = None \<and>
   heap w_closed 1 = Status analyzing # tl chat_events \<and>
   fst (stream_get 1 w_closed) = Data (Status analyzing) \<and>
   put_if_live ''s1'' (Status crafting) w_closed = w_closed \<and>
   fst (stream_open ''s1'' w_closed) = fresh w_closed \<and>
   heap (snd (stream_open ''s1'' w_closed)) (fresh w_closed) = [] \<and>
   fst (stream_get (fresh w_closed) (snd (stream_open ''s1'' w_closed))) = Keepalive"
proof -
  have hA: "heap w_run2 1 = butlast chat_events @ Final ''Hello!'' # chat_events"
    "filter is_final (butlast chat_events) = []" "length (butlast chat_events) < 4"
    by (simp_all add: w_run2_heap chat_events_def)
  have hB: "heap w_at_final 1 = Final ''Hello!'' # chat_events"
    by (simp add: w_at_final_simps)
  have hC: "message_queues w_closed ''s1'' = None" "heap w_closed 1 = Status analyzing # tl chat_events"
    by (simp_all add: w_closed_simps chat_events_def)
  note A = final_relay_unregisters[of w_run2 1 "''Hello!''" chat_events "''s1''"
      "butlast chat_events" 4 0 init_sys "Status analyzing" "Status crafting"]
  note B = final_relay_unregisters[of w_at_final 1 "''Hello!''" chat_events "''s1''"
      "[]" 4 0 init_sys "Final ''Hello!''" "Status crafting"]
  note B' = final_relay_unregisters[of "snd (stream_get 1 w_at_final)" 1 "''Hello!''" chat_events "''s1''"
      "[]" 4 0 init_sys "Final ''Hello!''" "Status crafting"]
  note C = final_relay_unregisters[of w_closed 1 "''Hello!''" "tl chat_events" "''s1''"
      "[]" 4 0 init_sys "Status analyzing" "Status crafting"]
  from A hA have a: "generate_loop 4 ''s1'' 1 w_run2 =
        (map Data (butlast chat_events) @ [Data (Final ''Hello!'')], True,
         w_run2\<lparr>heap := (heap w_run2)(1 := chat_events),
                 message_queues := (message_queues w_run2)(''s1'' := None)\<rparr>)"
    by blast
  from B hB have b: "stream_get 1 w_at_final =
      (Data (Final ''Hello!''), w_at_final\<lparr>heap := (heap w_at_final)(1 := chat_events)\<rparr>)"
    by blast
  from B' have b': "stream_resume ''s1'' (Data (Final ''Hello!'')) (snd (stream_get 1 w_at_final)) =
     (True, (snd (stream_get 1 w_at_final))
              \<lparr>message_queues := (message_queues (snd (stream_get 1 w_at_final)))(''s1'' := None)\<rparr>)"
    by blast
  from C hC have c: "stream_get 1 w_closed =
      (Data (Status analyzing), w_closed\<lparr>heap := (heap w_closed)(1 := tl chat_events)\<rparr>)"
    "put_if_live ''s1'' (Status crafting) w_closed = w_closed"
    "fst (stream_open ''s1'' w_closed) = fresh w_closed"
    "heap (snd (stream_open ''s1'' w_closed)) (fresh w_closed) = []"
    "fst (stream_get (fresh w_closed) (snd (stream_open ''s1'' w_closed))) = Keepalive"
    by blast+
  show ?thesis
    using hA hB hC a b b' c by (simp add: chat_events_def)
qed

end
